theory Spec2Isabelle
  imports Main "HOL-Library.Word"
begin

section \<open>Data model\<close>

text \<open>
  The semantic analyser of libutap (typechecker.cpp) works on the abstract syntax built by
  the parser: expressions carrying a kind, a position, a type annotation, a literal value,
  a symbol reference and sub-expressions; types carrying a base, prefixes, a range, a
  sub-type, an array size and a frame; symbols carrying a name and a type.
\<close>

type_synonym int32_t = "32 word"

text \<open>The expression kinds of namespace Constants that the type checker dispatches on.\<close>

datatype kind_t =
    PLUS | MINUS | MULT | DIV | MOD
  | BIT_AND | BIT_OR | BIT_XOR | BIT_LSHIFT | BIT_RSHIFT
  | AND | OR | MIN_K | MAX_K
  | LT | LE | EQ | NEQ | GE | GT
  | NOT | UNARY_MINUS | RATE
  | ASSIGN | ASSPLUS | ASSMINUS | ASSDIV | ASSMOD | ASSMULT
  | ASSAND | ASSOR | ASSXOR | ASSLSHIFT | ASSRSHIFT
  | POSTINCREMENT | PREINCREMENT | POSTDECREMENT | PREDECREMENT
  | INLINEIF | COMMA | FUNCALL | ARRAY | FORALL
  | IDENTIFIER | CONSTANT | DOT | LIST | SYNC | LEADSTO

text \<open>The primitive types of class type\_t (symbols.h), used as base tags.\<close>

datatype base_t =
    UNKNOWN | VOID_TYPE | CLOCK | INT_T | BOOL | SCALAR | LOCATION | CHANNEL
  | TEMPLATE | INSTANCE | FUNCTION | ARRAY_T | RECORD | PROCESS | NTYPE
  | INVARIANT | INVARIANT_WR | GUARD | DIFF | CONSTRAINT | COST | RATE_T

text \<open>namespace prefix (symbols.h).\<close>

datatype prefix_t =
  URGENT | COMMITTED | CONSTANT_P | BROADCAST | REFERENCE | META | WINNING | LOSING

text \<open>The direction of a synchronisation (\<open>!\<close> or \<open>?\<close>).\<close>

datatype synchronisation_t = SYNC_QUE | SYNC_BANG

text \<open>
  An expression is either the empty expression or a node
  \<open>Expr kind position type value symbol sub\<close>. A type is
  \<open>Type base prefixes lower upper sub arraySize frameId fields\<close>: the range is the pair
  \<open>(lower, upper)\<close>; a frame is a shared handle, modelled by its identity \<open>frameId\<close>
  together with its ordered symbols. A symbol is \<open>Symbol name type\<close>.
\<close>

datatype expression_t =
    Empty
  | Expr kind_t nat type_t int "symbol_t option" "expression_t list"
and type_t =
    Type base_t "prefix_t set" expression_t expression_t
         "type_t option" "type_t option" nat "symbol_t list"
and symbol_t =
    Symbol string type_t

subsection \<open>Accessors of type\_t and symbol\_t\<close>

text \<open>
  Modelled from the spec: the bodies of the accessors of type\_t, symbol\_t and frame\_t
  (declared in symbols.h) are not part of the sources. A primitive type is its base and
  nothing else, and \<open>prim UNKNOWN\<close> is the default-constructed type; an absent sub-type
  or array size reads as the unknown type. Two types are equal (\<open>type_t::operator==\<close>)
  iff they are the same term, frames being compared by identity.
\<close>

definition prim :: "base_t \<Rightarrow> type_t" where
  "prim b = Type b {} Empty Empty None None 0 []"

fun getBase :: "type_t \<Rightarrow> base_t" where
  "getBase (Type b ps lo hi sb sz fid fs) = b"

fun hasPrefix :: "type_t \<Rightarrow> prefix_t \<Rightarrow> bool" where
  "hasPrefix (Type b ps lo hi sb sz fid fs) p = (p \<in> ps)"

fun getRange :: "type_t \<Rightarrow> expression_t \<times> expression_t" where
  "getRange (Type b ps lo hi sb sz fid fs) = (lo, hi)"

fun getSub :: "type_t \<Rightarrow> type_t" where
  "getSub (Type b ps lo hi sb sz fid fs) = (case sb of None \<Rightarrow> prim UNKNOWN | Some t \<Rightarrow> t)"

fun getArraySize :: "type_t \<Rightarrow> type_t" where
  "getArraySize (Type b ps lo hi sb sz fid fs) =
     (case sz of None \<Rightarrow> prim UNKNOWN | Some t \<Rightarrow> t)"

text \<open>
  A frame handle: its identity and its symbols. Modelled from the spec:
  \<open>frame_t::operator==\<close> compares handles, so two frames are equal iff their identities
  are.
\<close>

type_synonym frame_t = "nat \<times> symbol_t list"

fun getFrame :: "type_t \<Rightarrow> frame_t" where
  "getFrame (Type b ps lo hi sb sz fid fs) = (fid, fs)"

definition getRecordFields :: "type_t \<Rightarrow> frame_t" where
  "getRecordFields t = getFrame t"

definition getParameters :: "type_t \<Rightarrow> frame_t" where
  "getParameters t = getFrame t"

definition frame_eq :: "frame_t \<Rightarrow> frame_t \<Rightarrow> bool" where
  "frame_eq f g = (fst f = fst g)"

definition frame_getSize :: "frame_t \<Rightarrow> nat" where
  "frame_getSize f = length (snd f)"

fun getName :: "symbol_t \<Rightarrow> string" where
  "getName (Symbol n t) = n"

fun symbol_getType :: "symbol_t \<Rightarrow> type_t" where
  "symbol_getType (Symbol n t) = t"

text \<open>The classification predicates of type\_t, as written in symbols.h.\<close>

definition type_isInteger :: "type_t \<Rightarrow> bool" where
  "type_isInteger t = (getBase t = INT_T)"

definition type_isValue :: "type_t \<Rightarrow> bool" where
  "type_isValue t = (getBase t = INT_T \<or> getBase t = BOOL)"

definition type_isScalar :: "type_t \<Rightarrow> bool" where
  "type_isScalar t = (getBase t = SCALAR \<or> type_isInteger t)"

definition type_isClock :: "type_t \<Rightarrow> bool" where
  "type_isClock t = (getBase t = CLOCK)"

definition type_isRecord :: "type_t \<Rightarrow> bool" where
  "type_isRecord t = (getBase t = RECORD)"

definition type_isDiff :: "type_t \<Rightarrow> bool" where
  "type_isDiff t = (getBase t = DIFF)"

definition type_isVoid :: "type_t \<Rightarrow> bool" where
  "type_isVoid t = (getBase t = VOID_TYPE)"

definition type_isInvariant :: "type_t \<Rightarrow> bool" where
  "type_isInvariant t = (getBase t = INVARIANT \<or> type_isValue t)"

definition type_isGuard :: "type_t \<Rightarrow> bool" where
  "type_isGuard t = (getBase t = GUARD \<or> type_isInvariant t)"

definition type_isConstraint :: "type_t \<Rightarrow> bool" where
  "type_isConstraint t = (getBase t = CONSTRAINT \<or> type_isGuard t)"

subsection \<open>Accessors of expression\_t\<close>

text \<open>
  Modelled from the spec: class expression\_t (expression.cpp) is not part of the sources.
  The empty expression is a distinguished sentinel with no kind, no sub-expression and the
  unknown type; \<open>expr[i]\<close> outside the sub-expressions is an assertion failure, written
  \<open>None\<close> here.
\<close>

fun empty :: "expression_t \<Rightarrow> bool" where
  "empty Empty = True"
| "empty (Expr k p t v s es) = False"

fun getType :: "expression_t \<Rightarrow> type_t" where
  "getType Empty = prim UNKNOWN"
| "getType (Expr k p t v s es) = t"

fun getKind :: "expression_t \<Rightarrow> kind_t option" where
  "getKind Empty = None"
| "getKind (Expr k p t v s es) = Some k"

fun getSize :: "expression_t \<Rightarrow> nat" where
  "getSize Empty = 0"
| "getSize (Expr k p t v s es) = length es"

fun subexprs :: "expression_t \<Rightarrow> expression_t list" where
  "subexprs Empty = []"
| "subexprs (Expr k p t v s es) = es"

definition get :: "expression_t \<Rightarrow> nat \<Rightarrow> expression_t option" where
  "get e i = (if i < getSize e then Some (subexprs e ! i) else None)"

fun setType :: "expression_t \<Rightarrow> type_t \<Rightarrow> expression_t" where
  "setType Empty t = Empty"
| "setType (Expr k p t0 v s es) t = Expr k p t v s es"


definition createUnary :: "nat \<Rightarrow> kind_t \<Rightarrow> expression_t \<Rightarrow> type_t \<Rightarrow> expression_t" where
  "createUnary pos k e t = Expr k pos t 0 None [e]"

definition createNary ::
  "nat \<Rightarrow> kind_t \<Rightarrow> expression_t list \<Rightarrow> type_t \<Rightarrow> expression_t" where
  "createNary pos k es t = Expr k pos t 0 None es"

definition createConstant :: "nat \<Rightarrow> int \<Rightarrow> expression_t" where
  "createConstant pos n = Expr CONSTANT pos (prim INT_T) n None []"

fun getPosition :: "expression_t \<Rightarrow> nat" where
  "getPosition Empty = 0"
| "getPosition (Expr k p t v s es) = p"

text \<open>
  Modelled from the spec: \<open>expression_t::equal\<close> is syntactic equality. It compares kind,
  value, symbol and sub-expressions, and neither the position nor the type annotation.
\<close>

fun equal :: "expression_t \<Rightarrow> expression_t \<Rightarrow> bool" where
  "equal Empty Empty = True"
| "equal Empty (Expr k p t v s es) = False"
| "equal (Expr k p t v s es) Empty = False"
| "equal (Expr k p t v s es) (Expr k' p' t' v' s' es') =
     (k = k' \<and> v = v' \<and> s = s' \<and> list_all2 equal es es')"

subsection \<open>The static helpers at the head of typechecker.cpp\<close>

definition isCost :: "expression_t \<Rightarrow> bool" where
  "isCost expr = (getBase (getType expr) = COST)"

definition isVoid :: "expression_t \<Rightarrow> bool" where
  "isVoid expr = type_isVoid (getType expr)"

definition isScalar :: "expression_t \<Rightarrow> bool" where
  "isScalar expr = type_isScalar (getType expr)"

definition isInteger :: "expression_t \<Rightarrow> bool" where
  "isInteger expr = type_isInteger (getType expr)"

definition isValue :: "expression_t \<Rightarrow> bool" where
  "isValue expr = type_isValue (getType expr)"

definition isClock :: "expression_t \<Rightarrow> bool" where
  "isClock expr = type_isClock (getType expr)"

definition isRecord :: "expression_t \<Rightarrow> bool" where
  "isRecord expr = type_isRecord (getType expr)"

definition isDiff :: "expression_t \<Rightarrow> bool" where
  "isDiff expr = type_isDiff (getType expr)"

definition isInvariant :: "expression_t \<Rightarrow> bool" where
  "isInvariant expr = type_isInvariant (getType expr)"

definition isInvariantWR :: "expression_t \<Rightarrow> bool" where
  "isInvariantWR expr = (isInvariant expr \<or> getType expr = prim INVARIANT_WR)"

definition isGuard :: "expression_t \<Rightarrow> bool" where
  "isGuard expr = type_isGuard (getType expr)"

definition isConstraint :: "expression_t \<Rightarrow> bool" where
  "isConstraint expr = type_isConstraint (getType expr)"

text \<open>
  The error sink: \<open>handleError(expr, msg)\<close> reports \<open>msg\<close> at the position of
  \<open>expr\<close>; the model records the expression itself with the message.
\<close>

type_synonym error_t = "expression_t \<times> string"

definition handleError :: "expression_t \<Rightarrow> string \<Rightarrow> error_t list \<Rightarrow> error_t list" where
  "handleError expr msg errs = errs @ [(expr, msg)]"

section \<open>RateDecomposer\<close>

record RateDecomposer =
  rate :: "(expression_t \<times> expression_t) list"
  invariant :: expression_t



section \<open>Ranges and the constant interpreter\<close>

text \<open>
  Modelled from the spec: the implementation of range\_t (declared in symbols.h) is not part
  of the sources. A range is a closed interval of signed 32-bit integers or the empty
  range; \<open>contains\<close> is inclusive, \<open>intersect\<close> is empty on disjoint ranges and
  \<open>join\<close> is the convex hull.
\<close>

datatype range_t = EmptyRange | Range int32_t int32_t

fun range_isEmpty :: "range_t \<Rightarrow> bool" where
  "range_isEmpty EmptyRange = True"
| "range_isEmpty (Range l u) = (sint u < sint l)"

fun range_contains_value :: "range_t \<Rightarrow> int32_t \<Rightarrow> bool" where
  "range_contains_value EmptyRange n = False"
| "range_contains_value (Range l u) n = (sint l \<le> sint n \<and> sint n \<le> sint u)"

fun range_contains :: "range_t \<Rightarrow> range_t \<Rightarrow> bool" where
  "range_contains r EmptyRange = True"
| "range_contains EmptyRange (Range l u) = False"
| "range_contains (Range l u) (Range l' u') = (sint l \<le> sint l' \<and> sint u' \<le> sint u)"

fun range_intersect :: "range_t \<Rightarrow> range_t \<Rightarrow> range_t" where
  "range_intersect EmptyRange r = EmptyRange"
| "range_intersect (Range l u) EmptyRange = EmptyRange"
| "range_intersect (Range l u) (Range l' u') =
     (let lo = (if sint l \<le> sint l' then l' else l);
          hi = (if sint u \<le> sint u' then u else u')
      in if sint hi < sint lo then EmptyRange else Range lo hi)"

fun range_join :: "range_t \<Rightarrow> range_t \<Rightarrow> range_t" where
  "range_join EmptyRange r = r"
| "range_join (Range l u) EmptyRange = Range l u"
| "range_join (Range l u) (Range l' u') =
     Range (if sint l \<le> sint l' then l else l') (if sint u \<le> sint u' then u' else u)"

text \<open>
  Modelled from the spec: class Interpreter is an external service. Under a valuation it
  evaluates an expression to an integer, or an expression to the vector of its values, and
  either may raise InterpreterException (NotComputable), written \<open>None\<close>. The empty
  expression has no value, and a range is evaluated endpoint by endpoint, lower first.
\<close>

record Interpreter =
  valueOf :: "expression_t \<Rightarrow> int32_t option"
  valuesOf :: "expression_t \<Rightarrow> int32_t list option"

definition evaluate :: "Interpreter \<Rightarrow> expression_t \<Rightarrow> int32_t option" where
  "evaluate interpreter e = (if empty e then None else valueOf interpreter e)"

definition evaluate_vector :: "Interpreter \<Rightarrow> expression_t \<Rightarrow> int32_t list option" where
  "evaluate_vector interpreter e = (if empty e then None else valuesOf interpreter e)"

definition evaluate_range ::
  "Interpreter \<Rightarrow> expression_t \<times> expression_t \<Rightarrow> range_t option" where
  "evaluate_range interpreter r =
     (case evaluate interpreter (fst r) of
        None \<Rightarrow> None
      | Some l \<Rightarrow>
          (case evaluate interpreter (snd r) of
             None \<Rightarrow> None
           | Some u \<Rightarrow> Some (Range l u)))"

section \<open>Left-hand side values\<close>

text \<open>
  Modelled from the spec: \<open>expression_t::getSymbol\<close> is not part of the sources. The symbol
  of an expression is the symbol of the identifier that the expression refers to, found
  along the same operands that \<open>isLHSValue\<close> follows.
\<close>

fun getSymbol :: "expression_t \<Rightarrow> symbol_t option" where
  "getSymbol Empty = None"
| "getSymbol (Expr k p t v s es) =
     (if k = IDENTIFIER then s
      else if k \<in> {DOT, ARRAY, PREINCREMENT, PREDECREMENT, ASSIGN, ASSPLUS, ASSMINUS, ASSDIV,
                    ASSMOD, ASSMULT, ASSAND, ASSOR, ASSXOR, ASSLSHIFT, ASSRSHIFT} then
        (case es of a # rest \<Rightarrow> getSymbol a | [] \<Rightarrow> None)
      else if k \<in> {INLINEIF, COMMA} then
        (case es of a # b # rest \<Rightarrow> getSymbol b | _ \<Rightarrow> None)
      else None)"

text \<open>The type of a symbol handle; the null symbol has the unknown type.\<close>

fun getSymbolType :: "symbol_t option \<Rightarrow> type_t" where
  "getSymbolType None = prim UNKNOWN"
| "getSymbolType (Some sy) = symbol_getType sy"

text \<open>The loop \<open>while (t.getBase() == type_t::ARRAY) t = t.getSub();\<close>\<close>

fun stripArrays :: "type_t \<Rightarrow> type_t" where
  "stripArrays (Type b ps lo hi sb sz fid fs) =
     (if b = ARRAY_T then
        (case sb of None \<Rightarrow> prim UNKNOWN | Some t \<Rightarrow> stripArrays t)
      else Type b ps lo hi sb sz fid fs)"

text \<open>
  \<open>TypeChecker::isLHSValue\<close>. An operand that the node does not have makes the answer
  false here (the builder creates every node with its operands).
\<close>

fun isLHSValue :: "expression_t \<Rightarrow> bool" where
  "isLHSValue Empty = False"
| "isLHSValue (Expr k p t v s es) =
     (if k = IDENTIFIER then \<not> hasPrefix (getSymbolType s) CONSTANT_P
      else if k \<in> {DOT, ARRAY} then
        (case es of a # rest \<Rightarrow> isLHSValue a | [] \<Rightarrow> False)
      else if k \<in> {PREINCREMENT, PREDECREMENT, ASSIGN, ASSPLUS, ASSMINUS, ASSDIV, ASSMOD,
                    ASSMULT, ASSAND, ASSOR, ASSXOR, ASSLSHIFT, ASSRSHIFT} then
        (case es of a # rest \<Rightarrow> isLHSValue a | [] \<Rightarrow> False)
      else if k = INLINEIF then
        (case es of
           c # a # b # rest \<Rightarrow>
             if \<not> isLHSValue a \<or> \<not> isLHSValue b then False
             else
               (let t = stripArrays (getSymbolType (getSymbol a));
                    f = stripArrays (getSymbolType (getSymbol b))
                in if getBase t = INT_T then
                     equal (fst (getRange t)) (fst (getRange f))
                     \<and> equal (snd (getRange t)) (snd (getRange f))
                   else True)
         | _ \<Rightarrow> False)
      else if k = COMMA then
        (case es of a # b # rest \<Rightarrow> isLHSValue b | _ \<Rightarrow> False)
      else False)"

section \<open>Compatibility of an argument with a formal parameter\<close>

text \<open>\<open>channelCapability\<close>; the assertion that the type is a channel fails as \<open>None\<close>.\<close>

definition channelCapability :: "type_t \<Rightarrow> int option" where
  "channelCapability t =
     (if getBase t \<noteq> CHANNEL then None
      else if hasPrefix t URGENT then Some 0
      else if hasPrefix t BROADCAST then Some 1
      else Some 2)"

definition createInteger :: "expression_t \<Rightarrow> expression_t \<Rightarrow> type_t" where
  "createInteger lo hi = Type INT_T {} lo hi None None 0 []"

text \<open>
  The body of the \<open>try\<close> block of \<open>checkParameterCompatible\<close> ends in one of three ways:
  it returns, it throws a message, or it runs into \<open>assert(false)\<close>.
\<close>

datatype outcome_t = Returned | Thrown string | AssertionFailed

text \<open>
  The loop resolving the base type of arrays: it throws, or it leaves the loop with the
  element types of the parameter and of the argument.
\<close>

fun resolveArrays :: "type_t \<Rightarrow> type_t \<Rightarrow> string + (type_t \<times> type_t)" where
  "resolveArrays (Type b ps lo hi sb sz fid fs) argType =
     (let paramType = Type b ps lo hi sb sz fid fs in
      if b \<noteq> ARRAY_T then Inr (paramType, argType)
      else if getBase argType \<noteq> ARRAY_T then Inl ''Incompatible type''
      else
        (let argSize = getArraySize argType;
             paramSize = getArraySize paramType
         in if type_isInteger argSize \<and> type_isInteger paramSize then
              (if \<not> equal (fst (getRange argSize)) (fst (getRange paramSize))
                  \<or> \<not> equal (snd (getRange argSize)) (snd (getRange paramSize))
               then Inl ''Incompatible type''
               else (case sb of
                       None \<Rightarrow> Inr (prim UNKNOWN, getSub argType)
                     | Some t \<Rightarrow> resolveArrays t (getSub argType)))
            else if type_isScalar argSize \<and> type_isScalar paramSize then
              (if argSize \<noteq> paramSize then Inl ''Incompatible type''
               else (case sb of
                       None \<Rightarrow> Inr (prim UNKNOWN, getSub argType)
                     | Some t \<Rightarrow> resolveArrays t (getSub argType)))
            else Inl ''Incompatible type''))"

text \<open>Case a of the integer check: the argument is a left-hand side value.\<close>

definition checkRangeLHS ::
  "Interpreter \<Rightarrow> bool \<Rightarrow> bool \<Rightarrow> type_t \<Rightarrow> type_t \<Rightarrow> outcome_t" where
  "checkRangeLHS interpreter ref constant paramType argType =
     (let fallback =
        (if ref then
           (let paramRange = getRange paramType; argRange = getRange argType
            in if \<not> equal (fst paramRange) (fst argRange)
                  \<or> \<not> equal (snd paramRange) (snd argRange)
               then Thrown ''Range of argument does not match range of formal parameter''
               else Returned)
         else Returned)
      in case evaluate_range interpreter (getRange paramType) of
           None \<Rightarrow> fallback
         | Some paramRange \<Rightarrow>
             (case evaluate_range interpreter (getRange argType) of
                None \<Rightarrow> fallback
              | Some argRange \<Rightarrow>
                  if ref \<and> \<not> constant \<and> argRange \<noteq> paramRange then
                    Thrown ''Range of argument does not match range of formal parameter''
                  else if ref \<and> constant \<and> \<not> range_contains paramRange argRange then
                    Thrown ''Range of argument is outside of the range of the formal parameter''
                  else if range_isEmpty (range_intersect paramRange argRange) then
                    Thrown ''Range of argument is outside of the range of the formal parameter''
                  else Returned))"

text \<open>Case b of the integer check: the argument is not a left-hand side value.\<close>

definition checkRangeValue :: "Interpreter \<Rightarrow> type_t \<Rightarrow> expression_t \<Rightarrow> outcome_t" where
  "checkRangeValue interpreter paramType arg =
     (case evaluate_range interpreter (getRange paramType) of
        None \<Rightarrow> Returned
      | Some paramRange \<Rightarrow>
          (case evaluate_vector interpreter arg of
             None \<Rightarrow> Returned
           | Some val \<Rightarrow>
               (let argRange = fold (\<lambda>n r. range_join r (Range n n)) val EmptyRange
                in if \<not> range_contains paramRange argRange then
                     Thrown ''Range of argument is outside of the range of the formal parameter''
                   else Returned)))"

text \<open>The body of the \<open>try\<close> block of \<open>TypeChecker::checkParameterCompatible\<close>.\<close>

definition checkParameterCompatible_try ::
  "Interpreter \<Rightarrow> type_t \<Rightarrow> expression_t \<Rightarrow> outcome_t" where
  "checkParameterCompatible_try interpreter paramType arg =
     (let ref = hasPrefix paramType REFERENCE;
          constant = hasPrefix paramType CONSTANT_P;
          lhs0 = isLHSValue arg;
          argType0 = getType arg;
          conv1 = (if \<not> ref \<and> getBase paramType = INT_T \<and> getBase argType0 = BOOL
                   then (createInteger (createConstant 0 0) (createConstant 0 1), False)
                   else (argType0, lhs0));
          conv2 = (if \<not> ref \<and> getBase paramType = BOOL \<and> getBase (fst conv1) = INT_T
                   then (prim BOOL, False)
                   else conv1);
          argType1 = fst conv2;
          lhs = snd conv2
      in if ref \<and> \<not> constant \<and> \<not> lhs then
           Thrown ''Reference parameter requires left value argument''
         else
           (case resolveArrays paramType argType1 of
              Inl msg \<Rightarrow> Thrown msg
            | Inr (paramType', argType) \<Rightarrow>
                if getBase paramType' \<noteq> getBase argType then Thrown ''Incompatible argument''
                else
                  (let base = getBase paramType' in
                   if base = CLOCK \<or> base = BOOL then Returned
                   else if base = INT_T then
                     (if empty (fst (getRange paramType')) then Returned
                      else if lhs then checkRangeLHS interpreter ref constant paramType' argType
                      else checkRangeValue interpreter paramType' arg)
                   else if base = RECORD then
                     (if \<not> frame_eq (getRecordFields paramType') (getRecordFields argType)
                      then Thrown ''Argument has incompatible type''
                      else Returned)
                   else if base = CHANNEL then
                     (case (channelCapability argType, channelCapability paramType') of
                        (Some ca, Some cp) \<Rightarrow>
                          if ca < cp then Thrown ''Incompatible channel type'' else Returned
                      | _ \<Rightarrow> AssertionFailed)
                   else if base = SCALAR then
                     (if paramType' \<noteq> argType then Thrown ''Argument has incompatible type''
                      else Returned)
                   else AssertionFailed)))"

text \<open>
  \<open>TypeChecker::checkParameterCompatible\<close>: the \<open>catch\<close> clause reports the thrown
  message at the argument. A failed assertion aborts the program: \<open>None\<close>.
\<close>

definition checkParameterCompatible ::
  "Interpreter \<Rightarrow> type_t \<Rightarrow> expression_t \<Rightarrow> error_t list \<Rightarrow> error_t list option" where
  "checkParameterCompatible interpreter paramType arg errs =
     (case checkParameterCompatible_try interpreter paramType arg of
        Returned \<Rightarrow> Some errs
      | Thrown msg \<Rightarrow> Some (handleError arg msg errs)
      | AssertionFailed \<Rightarrow> None)"

section \<open>Initialisers\<close>

text \<open>
  \<open>checkInitialiser(type, init)\<close> returns the checked initialiser or throws an
  InitialiserException carrying the offending expression and a message; a read of
  \<open>init[i]\<close> outside the sub-expressions of \<open>init\<close> is an assertion failure.
\<close>

datatype init_result_t =
    Initialised expression_t
  | InitialiserException expression_t string
  | IndexAssertion

text \<open>
  Modelled from the spec: \<open>frame_t::getIndexOf\<close> is declared in symbols.h and its body is not
  part of the sources. It returns the index of the symbol of that name in the frame, and
  \<open>-1\<close> when the frame has none.
\<close>

fun indexOfName :: "symbol_t list \<Rightarrow> string \<Rightarrow> int" where
  "indexOfName [] name = -1"
| "indexOfName (f # fs) name =
     (if getName f = name then 0
      else (let i = indexOfName fs name in if i = -1 then -1 else i + 1))"

definition getIndexOf :: "frame_t \<Rightarrow> string \<Rightarrow> int" where
  "getIndexOf flds name = indexOfName (snd flds) name"

text \<open>
  The loop of the array case, one iteration: \<open>i\<close> is the loop index, \<open>result\<close> the vector
  being filled; \<open>checked\<close> is the value of \<open>checkInitialiser(subtype, init[i])\<close>, used only
  where the source calls it.
\<close>

datatype array_loop_t =
    ArrayRunning nat "expression_t list"
  | ArrayStopped init_result_t

definition arrayStep ::
  "symbol_t \<Rightarrow> expression_t \<Rightarrow> init_result_t \<times> error_t list
   \<Rightarrow> array_loop_t \<times> error_t list \<Rightarrow> array_loop_t \<times> error_t list" where
  "arrayStep field init_i checked st =
     (case fst st of
        ArrayStopped x \<Rightarrow> st
      | ArrayRunning i result \<Rightarrow>
          if getName field \<noteq> [] then
            (ArrayStopped (InitialiserException init_i ''Unknown field specified in initialiser''),
             snd st)
          else
            (case fst checked of
               Initialised r \<Rightarrow> (ArrayRunning (i + 1) (result[i := r]), snd checked)
             | x \<Rightarrow> (ArrayStopped x, snd checked)))"

text \<open>
  The first loop of the record case, one iteration: \<open>current\<close> is the field index the next
  initialiser goes to. \<open>break\<close> leaves the loop with the vector as it is; \<open>continue\<close>
  goes on with \<open>current + 1\<close>. \<open>check ty\<close> is \<open>checkInitialiser(ty, init[i])\<close>.
\<close>

datatype record_loop_t =
    RecordRunning int "expression_t list"
  | RecordBroken "expression_t list"
  | RecordStopped init_result_t

definition recordTarget :: "frame_t \<Rightarrow> symbol_t \<Rightarrow> int \<Rightarrow> int" where
  "recordTarget flds initialiser current =
     (if getName initialiser \<noteq> [] then getIndexOf flds (getName initialiser) else current)"

definition recordStep ::
  "frame_t \<Rightarrow> symbol_t \<Rightarrow> expression_t \<Rightarrow> (type_t \<Rightarrow> error_t list \<Rightarrow> init_result_t \<times> error_t list)
   \<Rightarrow> record_loop_t \<times> error_t list \<Rightarrow> record_loop_t \<times> error_t list" where
  "recordStep flds initialiser init_i check st =
     (case fst st of
        RecordStopped x \<Rightarrow> st
      | RecordBroken result \<Rightarrow> st
      | RecordRunning current0 result \<Rightarrow>
          (let current = recordTarget flds initialiser current0 in
           if getName initialiser \<noteq> [] \<and> current = -1 then
             (RecordBroken result, handleError init_i ''Unknown field'' (snd st))
           else if current \<ge> int (frame_getSize flds) then
             (RecordBroken result, handleError init_i ''Excess elements in intialiser'' (snd st))
           else if \<not> empty (result ! nat current) then
             (RecordRunning (current + 1) result,
              handleError init_i ''Multiple initialisers for field'' (snd st))
           else
             (case check (symbol_getType (snd flds ! nat current)) (snd st) of
                (Initialised r, errs') \<Rightarrow>
                  (RecordRunning (current + 1) (result[nat current := r]), errs')
              | (x, errs') \<Rightarrow> (RecordStopped x, errs'))))"

text \<open>A sub-expression is smaller than the expression: the recursion below terminates.\<close>

lemma subexprs_smaller: "e \<in> set (subexprs init) \<Longrightarrow> size e < size init"
proof (cases init)
  case Empty
  assume "e \<in> set (subexprs init)"
  with Empty show ?thesis by simp
next
  case (Expr k p t v s sub)
  assume "e \<in> set (subexprs init)"
  with Expr have "e \<in> set sub" by simp
  then have "size e \<le> size_list size sub" by (rule size_list_estimation') simp
  with Expr show ?thesis by simp
qed

text \<open>\<open>TypeChecker::checkInitialiser(type_t, expression_t)\<close>, with the error sink threaded.\<close>

function checkInitialiser ::
  "Interpreter \<Rightarrow> type_t \<Rightarrow> expression_t \<Rightarrow> error_t list \<Rightarrow> init_result_t \<times> error_t list"
where
  "checkInitialiser interpreter type init errs =
     (let base = getBase type in
      if base = ARRAY_T then
        (if getKind init \<noteq> Some LIST then
           (InitialiserException init ''Invalid array initialiser'', errs)
         else
           (let asize = getArraySize type in
            if \<not> type_isInteger asize then
              (InitialiserException init ''Arrays of scalarsets cannot have initialisers'', errs)
            else
              (case evaluate interpreter (fst (getRange asize)) of
                 None \<Rightarrow>
                   (InitialiserException init
                      ''Arrays with parameterized size cannot have an initialiser'', errs)
               | Some lower \<Rightarrow>
              (case evaluate interpreter (snd (getRange asize)) of
                 None \<Rightarrow>
                   (InitialiserException init
                      ''Arrays with parameterized size cannot have an initialiser'', errs)
               | Some upper \<Rightarrow>
                   (let dim = upper - lower + 1 in
                    if getSize init > unat dim then
                      (InitialiserException init ''Excess elements in array initialiser'', errs)
                    else
                      (let subtype = getSub type;
                           flds = getRecordFields (getType init);
                           loop = fold (\<lambda>(field, init_i) st.
                                          arrayStep field init_i
                                            (checkInitialiser interpreter subtype init_i (snd st)) st)
                                    (zip (snd flds) (subexprs init))
                                    (ArrayRunning 0 (replicate (frame_getSize flds) Empty), errs)
                       in case fst loop of
                            ArrayStopped x \<Rightarrow> (x, snd loop)
                          | ArrayRunning i result \<Rightarrow>
                              if getSize init < frame_getSize flds then (IndexAssertion, snd loop)
                              else if frame_getSize flds < unat dim then
                                (InitialiserException init ''Missing fields in initialiser'',
                                 snd loop)
                              else
                                (Initialised (createNary (getPosition init) LIST result type),
                                 snd loop)))))))
      else if base = BOOL then
        (if \<not> isValue init then (InitialiserException init ''Invalid initialiser'', errs)
         else (Initialised init, errs))
      else if base = INT_T then
        (if \<not> isValue init then (InitialiserException init ''Invalid initialiser'', errs)
         else if empty (fst (getRange type)) then (Initialised init, errs)
         else
           (case evaluate interpreter init of
              None \<Rightarrow> (Initialised init, errs)
            | Some n \<Rightarrow>
                (case evaluate_range interpreter (getRange type) of
                   None \<Rightarrow> (Initialised init, errs)
                 | Some rng \<Rightarrow>
                     if \<not> range_contains_value rng n then
                       (InitialiserException init ''Initialiser is out of range'', errs)
                     else (Initialised init, errs))))
      else if base = RECORD then
        (if getBase (getType init) = RECORD
            \<and> frame_eq (getRecordFields type) (getRecordFields (getType init))
         then (Initialised init, errs)
         else if getKind init \<noteq> Some LIST then
           (InitialiserException init ''Invalid initialiser for struct'', errs)
         else
           (let flds = getRecordFields type;
                initialisers = getRecordFields (getType init);
                loop = fold (\<lambda>(initialiser, init_i) st.
                               recordStep flds initialiser init_i
                                 (\<lambda>ty es. checkInitialiser interpreter ty init_i es) st)
                         (zip (snd initialisers) (subexprs init))
                         (RecordRunning 0 (replicate (frame_getSize flds) Empty), errs);
                finish = (\<lambda>result.
                            if \<exists>i < frame_getSize flds. empty (result ! i) then
                              (InitialiserException init ''Incomplete initialiser'', snd loop)
                            else
                              (Initialised (createNary (getPosition init) LIST result type),
                               snd loop))
            in case fst loop of
                 RecordStopped x \<Rightarrow> (x, snd loop)
               | RecordBroken result \<Rightarrow> finish result
               | RecordRunning current result \<Rightarrow>
                   if getSize init < frame_getSize initialisers then (IndexAssertion, snd loop)
                   else finish result))
      else (InitialiserException init ''Invalid initialiser'', errs))"
  by pat_completeness auto
termination
  by (relation "measure (\<lambda>(interpreter, type, init, errs). size init)")
     (auto dest!: set_zip_rightD subexprs_smaller)

declare checkInitialiser.simps [simp del]

section \<open>Persistent variables and side effects\<close>

text \<open>
  Modelled from the spec: \<open>expression_t::dependsOn\<close> and \<open>expression_t::changesVariable\<close>
  are not part of the sources. An expression depends on a set of symbols iff one of its
  identifiers is in the set; it changes a variable of the set iff it contains an
  assignment, an increment or a decrement whose left-hand side refers to a symbol of the
  set.
\<close>

fun dependsOn :: "symbol_t set \<Rightarrow> expression_t \<Rightarrow> bool" where
  "dependsOn P Empty = False"
| "dependsOn P (Expr k p t v s es) =
     ((k = IDENTIFIER \<and> (case s of None \<Rightarrow> False | Some sy \<Rightarrow> sy \<in> P))
      \<or> (\<exists>e \<in> set es. dependsOn P e))"

definition isUpdate :: "kind_t \<Rightarrow> bool" where
  "isUpdate k =
     (k \<in> {ASSIGN, ASSPLUS, ASSMINUS, ASSDIV, ASSMOD, ASSMULT, ASSAND, ASSOR, ASSXOR,
            ASSLSHIFT, ASSRSHIFT, POSTINCREMENT, PREINCREMENT, POSTDECREMENT, PREDECREMENT})"

fun changesVariable :: "symbol_t set \<Rightarrow> expression_t \<Rightarrow> bool" where
  "changesVariable P Empty = False"
| "changesVariable P (Expr k p t v s es) =
     ((isUpdate k \<and>
       (case es of
          [] \<Rightarrow> False
        | a # rest \<Rightarrow> (case getSymbol a of None \<Rightarrow> False | Some sy \<Rightarrow> sy \<in> P)))
      \<or> (\<exists>e \<in> set es. changesVariable P e))"

text \<open>\<open>TypeChecker::isSideEffectFree\<close>, for the persistent variables \<open>P\<close>.\<close>

definition isSideEffectFree :: "symbol_t set \<Rightarrow> expression_t \<Rightarrow> bool" where
  "isSideEffectFree P expr = (\<not> changesVariable P expr)"

section \<open>Types of operators\<close>

text \<open>\<open>TypeChecker::typeOfBinaryNonInt\<close>; the default-constructed type is \<open>prim UNKNOWN\<close>.\<close>

definition typeOfBinaryNonInt :: "expression_t \<Rightarrow> kind_t \<Rightarrow> expression_t \<Rightarrow> type_t" where
  "typeOfBinaryNonInt left binaryop right =
     (if binaryop = PLUS then
        (if isInteger left \<and> isClock right \<or> isClock left \<and> isInteger right then prim CLOCK
         else if isDiff left \<and> isInteger right \<or> isInteger left \<and> isDiff right then prim DIFF
         else prim UNKNOWN)
      else if binaryop = MINUS then
        (if isClock left \<and> isInteger right then prim CLOCK
         else if isDiff left \<and> isInteger right \<or> isInteger left \<and> isDiff right
                 \<or> isClock left \<and> isClock right then prim DIFF
         else prim UNKNOWN)
      else if binaryop = AND then
        (if isInvariant left \<and> isInvariant right then prim INVARIANT
         else if isInvariantWR left \<and> isInvariantWR right then prim INVARIANT_WR
         else if isGuard left \<and> isGuard right then prim GUARD
         else if isConstraint left \<and> isConstraint right then prim CONSTRAINT
         else prim UNKNOWN)
      else if binaryop = OR then
        (if isValue left \<and> isInvariant right then prim INVARIANT
         else if isValue left \<and> isGuard right then prim GUARD
         else if isConstraint left \<and> isConstraint right then prim CONSTRAINT
         else prim UNKNOWN)
      else if binaryop = LT \<or> binaryop = LE then
        (if isClock left \<and> isClock right \<or> isClock left \<and> isInteger right
            \<or> isDiff left \<and> isInteger right \<or> isInteger left \<and> isDiff right
         then prim INVARIANT
         else if isInteger left \<and> isClock right then prim GUARD
         else prim UNKNOWN)
      else if binaryop = EQ then
        (if isClock left \<and> isClock right \<or> isClock left \<and> isInteger right
            \<or> isInteger left \<and> isClock right \<or> isDiff left \<and> isInteger right
            \<or> isInteger left \<and> isDiff right
         then prim GUARD
         else if getType left = prim RATE_T \<and> isInteger right
                 \<or> isInteger left \<and> getType right = prim RATE_T
         then prim INVARIANT_WR
         else prim UNKNOWN)
      else if binaryop = NEQ then
        (if isClock left \<and> isClock right \<or> isClock left \<and> isInteger right
            \<or> isInteger left \<and> isClock right \<or> isDiff left \<and> isInteger right
            \<or> isInteger left \<and> isDiff right
         then prim CONSTRAINT
         else prim UNKNOWN)
      else if binaryop = GE \<or> binaryop = GT then
        (if isClock left \<and> isClock right \<or> isInteger left \<and> isClock right
            \<or> isDiff left \<and> isInteger right \<or> isInteger left \<and> isDiff right
         then prim INVARIANT
         else if isClock left \<and> isGuard right then prim GUARD
         else prim UNKNOWN)
      else prim UNKNOWN)"

text \<open>Below an array type, a sub-type that is an array again is smaller.\<close>

lemma getSub_smaller: "getBase (getSub t) = ARRAY_T \<Longrightarrow> size (getSub t) < size t"
  by (cases t) (auto simp: prim_def split: option.splits)

text \<open>
  \<open>TypeChecker::areInlineIfCompatible\<close>. In the array case the source compares the range of
  the size of the \<open>then\<close> type with \<open>elseArg.getRange()\<close>, the range of the \<open>else\<close> type
  itself.
\<close>

function areInlineIfCompatible :: "type_t \<Rightarrow> type_t \<Rightarrow> bool" where
  "areInlineIfCompatible thenArg elseArg =
     (let thenBase = getBase thenArg; elseBase = getBase elseArg in
      if type_isValue thenArg \<and> type_isValue elseArg then True
      else if type_isClock thenArg \<and> type_isClock elseArg then True
      else if thenBase = CHANNEL \<and> elseBase = CHANNEL then
        (hasPrefix thenArg URGENT = hasPrefix elseArg URGENT)
        \<and> (hasPrefix thenArg BROADCAST = hasPrefix elseArg BROADCAST)
      else if thenBase = ARRAY_T \<and> elseBase = ARRAY_T then
        (let thenSize = getArraySize thenArg; elseSize = getArraySize elseArg in
         if type_isInteger thenSize \<and> type_isInteger elseSize then
           (if \<not> equal (fst (getRange thenSize)) (fst (getRange elseArg))
               \<or> \<not> equal (snd (getRange thenSize)) (snd (getRange elseArg))
            then False
            else areInlineIfCompatible (getSub thenArg) (getSub elseArg))
         else if type_isScalar thenSize \<and> type_isScalar elseSize then
           (if thenSize \<noteq> elseSize then False
            else areInlineIfCompatible (getSub thenArg) (getSub elseArg))
         else False)
      else if type_isRecord thenArg \<and> type_isRecord elseArg then
        frame_eq (getRecordFields thenArg) (getRecordFields elseArg)
      else if type_isScalar thenArg \<and> type_isScalar elseArg then thenArg = elseArg
      else False)"
  by pat_completeness auto
termination
  by (relation "measure (\<lambda>(t, e). if getBase t = ARRAY_T then Suc (size t) else 0)")
     (auto simp: getSub_smaller)

declare areInlineIfCompatible.simps [simp del]

text \<open>\<open>TypeChecker::areAssignmentCompatible\<close>.\<close>

definition areAssignmentCompatible :: "type_t \<Rightarrow> type_t \<Rightarrow> bool" where
  "areAssignmentCompatible lvalue rvalue =
     (if type_isClock lvalue \<and> type_isValue rvalue then True
      else if type_isValue lvalue \<and> type_isValue rvalue then True
      else if type_isRecord lvalue \<and> type_isRecord rvalue then
        frame_eq (getRecordFields lvalue) (getRecordFields rvalue)
      else if type_isScalar lvalue \<and> type_isScalar rvalue then lvalue = rvalue
      else False)"

section \<open>The annotator\<close>

text \<open>
  What the \<open>switch\<close> of \<open>annotate\<close> decides for a node: it returns false, it returns
  true leaving the type of the node as it is, or it goes on to \<open>expr.setType(type)\<close> and
  returns true.
\<close>

datatype verdict_t = ReturnFalse | ReturnTrue | SetType type_t

text \<open>
  The number of operands that the \<open>switch\<close> reads for a kind. The builder creates every
  node with the operands of its kind; a node with fewer is outside the model.
\<close>

definition arity :: "kind_t \<Rightarrow> nat" where
  "arity k =
     (if k \<in> {EQ, NEQ, PLUS, MINUS, MULT, DIV, MOD, BIT_AND, BIT_OR, BIT_XOR, BIT_LSHIFT,
               BIT_RSHIFT, MIN_K, MAX_K, AND, OR, LT, LE, GE, GT, ASSIGN, ASSPLUS, ASSMINUS,
               ASSDIV, ASSMOD, ASSMULT, ASSAND, ASSOR, ASSXOR, ASSLSHIFT, ASSRSHIFT, COMMA,
               ARRAY, FORALL} then 2
      else if k \<in> {NOT, UNARY_MINUS, RATE, POSTINCREMENT, PREINCREMENT, POSTDECREMENT,
                    PREDECREMENT, FUNCALL} then 1
      else if k = INLINEIF then 3
      else 0)"

text \<open>
  The common tail of the binary operator cases: the type is that of
  \<open>typeOfBinaryNonInt\<close>, and the default-constructed type is an error.
\<close>

definition binaryNonInt ::
  "expression_t \<Rightarrow> kind_t \<Rightarrow> expression_t list \<Rightarrow> error_t list \<Rightarrow> verdict_t \<times> error_t list" where
  "binaryNonInt expr k es errs =
     (let type = typeOfBinaryNonInt (es ! 0) k (es ! 1) in
      if type = prim UNKNOWN then
        (ReturnFalse, handleError expr ''Invalid operands to binary operator'' errs)
      else (SetType type, errs))"

definition commaOperand :: "expression_t \<Rightarrow> bool" where
  "commaOperand e =
     (isValue e \<or> isScalar e \<or> isClock e \<or> isRecord e \<or> isVoid e \<or> isCost e)"

text \<open>
  The cases of the \<open>switch\<close> of \<open>TypeChecker::annotate\<close> that call neither \<open>annotate\<close>
  nor \<open>checkType\<close>: \<open>expr\<close> is the node, \<open>es\<close> its operands, already annotated.
\<close>

definition annotateSwitch ::
  "Interpreter \<Rightarrow> expression_t \<Rightarrow> kind_t \<Rightarrow> expression_t list \<Rightarrow> error_t list
   \<Rightarrow> verdict_t \<times> error_t list" where
  "annotateSwitch interpreter expr k es errs =
     (if k = EQ \<or> k = NEQ then
        (if isValue (es ! 0) \<and> isValue (es ! 1) then (SetType (prim BOOL), errs)
         else if isRecord (es ! 0) \<and> isRecord (es ! 1)
                 \<and> frame_eq (getRecordFields (getType (es ! 0)))
                             (getRecordFields (getType (es ! 1)))
         then (SetType (prim BOOL), errs)
         else if getBase (getType (es ! 0)) = SCALAR \<or> getBase (getType (es ! 1)) = SCALAR then
           (if getType (es ! 0) \<noteq> getType (es ! 1) then
              (ReturnFalse,
               handleError expr
                 ''Scalars can only be compared to scalars of the same scalarset'' errs)
            else (SetType (prim BOOL), errs))
         else binaryNonInt expr k es errs)
      else if k \<in> {PLUS, MINUS, MULT, DIV, MOD, BIT_AND, BIT_OR, BIT_XOR, BIT_LSHIFT,
                    BIT_RSHIFT, MIN_K, MAX_K} then
        (if isValue (es ! 0) \<and> isValue (es ! 1) then (SetType (prim INT_T), errs)
         else binaryNonInt expr k es errs)
      else if k \<in> {AND, OR, LT, LE, GE, GT} then
        (if isValue (es ! 0) \<and> isValue (es ! 1) then (SetType (prim BOOL), errs)
         else binaryNonInt expr k es errs)
      else if k = NOT then
        (if isValue (es ! 0) then (SetType (prim BOOL), errs)
         else if isConstraint (es ! 0) then (SetType (prim CONSTRAINT), errs)
         else (ReturnFalse, handleError expr ''Invalid operation for type'' errs))
      else if k = UNARY_MINUS then
        (if \<not> isValue (es ! 0) then
           (ReturnFalse, handleError expr ''Invalid operation for type'' errs)
         else (SetType (prim INT_T), errs))
      else if k = RATE then
        (if \<not> isCost (es ! 0) then
           (ReturnFalse, handleError expr ''Can only apply rate to cost variables'' errs)
         else (SetType (prim RATE_T), errs))
      else if k = ASSIGN then
        (if \<not> areAssignmentCompatible (getType (es ! 0)) (getType (es ! 1)) then
           (ReturnFalse, handleError expr ''Incompatible types'' errs)
         else if \<not> isLHSValue (es ! 0) then
           (ReturnFalse, handleError (es ! 0) ''Left hand side value expected'' errs)
         else (SetType (getType (es ! 0)), errs))
      else if k = ASSPLUS then
        (SetType (getType (es ! 0)),
         if \<not> isInteger (es ! 0) \<and> \<not> isCost (es ! 0) \<or> \<not> isInteger (es ! 1) then
           handleError expr
             ''Increment operator can only be used for integer and cost variables.'' errs
         else if \<not> isLHSValue (es ! 0) then
           handleError (es ! 0) ''Left hand side value expected'' errs
         else errs)
      else if k \<in> {ASSMINUS, ASSDIV, ASSMOD, ASSMULT, ASSAND, ASSOR, ASSXOR, ASSLSHIFT,
                    ASSRSHIFT} then
        (if \<not> isValue (es ! 0) \<or> \<not> isValue (es ! 1) then
           (ReturnFalse,
            handleError expr ''Non-integer types must use regular assignment operator'' errs)
         else if \<not> isLHSValue (es ! 0) then
           (ReturnFalse, handleError (es ! 0) ''Left hand side value expected'' errs)
         else (SetType (getType (es ! 0)), errs))
      else if k \<in> {POSTINCREMENT, PREINCREMENT, POSTDECREMENT, PREDECREMENT} then
        (if \<not> isLHSValue (es ! 0) then
           (ReturnFalse, handleError (es ! 0) ''Left hand side value expected'' errs)
         else if \<not> isInteger (es ! 0) then
           (ReturnFalse, handleError expr ''Integer expected'' errs)
         else (SetType (prim INT_T), errs))
      else if k = INLINEIF then
        (if \<not> isValue (es ! 0) then
           (ReturnFalse,
            handleError expr ''First argument of inline if must be an integer'' errs)
         else if \<not> areInlineIfCompatible (getType (es ! 1)) (getType (es ! 2)) then
           (ReturnFalse, handleError expr ''Incompatible arguments to inline if'' errs)
         else (SetType (getType (es ! 1)), errs))
      else if k = COMMA then
        (if \<not> commaOperand (es ! 0) then
           (ReturnFalse, handleError (es ! 0) ''Incompatible type for comma expression'' errs)
         else if \<not> commaOperand (es ! 1) then
           (ReturnFalse, handleError (es ! 1) ''Incompatible type for comma expression'' errs)
         else (SetType (getType (es ! 1)), errs))
      else if k = ARRAY then
        (let arg1 = getType (es ! 0); arg2 = getType (es ! 1) in
         if getBase arg1 \<noteq> ARRAY_T then
           (ReturnFalse, handleError (es ! 0) ''Array expected'' errs)
         else if type_isInteger (getArraySize arg1) \<and> type_isValue arg2 then
           (case evaluate interpreter (es ! 1) of
              None \<Rightarrow> (SetType (getSub arg1), errs)
            | Some index \<Rightarrow>
           (case evaluate interpreter (fst (getRange (getArraySize arg1))) of
              None \<Rightarrow> (SetType (getSub arg1), errs)
            | Some lower \<Rightarrow>
           (case evaluate interpreter (snd (getRange (getArraySize arg1))) of
              None \<Rightarrow> (SetType (getSub arg1), errs)
            | Some upper \<Rightarrow>
                if sint index < sint lower \<or> sint index > sint upper then
                  (ReturnFalse, handleError (es ! 1) ''Array index out of range'' errs)
                else (SetType (getSub arg1), errs))))
         else if type_isScalar (getArraySize arg1) \<and> type_isScalar arg2 then
           (if getArraySize arg1 \<noteq> arg2 then
              (ReturnFalse, handleError (es ! 1) ''Incompatible type'' errs)
            else (SetType (getSub arg1), errs))
         else (SetType (getSub arg1), errs))
      else (ReturnTrue, errs))"

text \<open>
  \<open>TypeChecker::checkFunctionCallArguments\<close>; \<open>expr\<close> is the call, \<open>es\<close> its
  operands, the function first. A failed assertion in \<open>checkParameterCompatible\<close> is
  \<open>None\<close>.
\<close>

fun checkArguments ::
  "Interpreter \<Rightarrow> symbol_t list \<Rightarrow> expression_t list \<Rightarrow> error_t list \<Rightarrow> error_t list option"
where
  "checkArguments interpreter (parameter # parameters) (argument # arguments) errs =
     (case checkParameterCompatible interpreter (symbol_getType parameter) argument errs of
        None \<Rightarrow> None
      | Some errs' \<Rightarrow> checkArguments interpreter parameters arguments errs')"
| "checkArguments interpreter parameters arguments errs = Some errs"

definition checkFunctionCallArguments ::
  "Interpreter \<Rightarrow> expression_t \<Rightarrow> expression_t list \<Rightarrow> error_t list \<Rightarrow> error_t list option"
where
  "checkFunctionCallArguments interpreter expr es errs =
     (let parameters = getParameters (getType (es ! 0)) in
      if frame_getSize parameters > length es - 1 then
        Some (handleError expr ''Too few arguments'' errs)
      else if frame_getSize parameters < length es - 1 then
        Some (fold (\<lambda>arg. handleError arg ''Too many arguments'')
                (drop (frame_getSize parameters + 1) es) errs)
      else checkArguments interpreter (snd parameters) (tl es) errs)"

text \<open>
  The tail of \<open>TypeChecker::annotateAndExpectConstantInteger\<close>, after \<open>annotate(expr)\<close>
  has returned \<open>ok\<close> and left \<open>expr\<close> annotated.
\<close>

definition expectConstantInteger ::
  "symbol_t set \<Rightarrow> bool \<Rightarrow> expression_t \<Rightarrow> error_t list \<Rightarrow> bool \<times> error_t list" where
  "expectConstantInteger P ok expr errs =
     (if ok then
        (if \<not> isInteger expr then (False, handleError expr ''Integer expression expected'' errs)
         else if dependsOn P expr then
           (False, handleError expr ''Constant expression expected'' errs)
         else (True, errs))
      else (False, errs))"

text \<open>
  The evaluation of a checked range in \<open>checkType\<close>: an inverted range is an error at the
  upper bound; a bound that is not computable is an error only inside a record.
\<close>

definition checkRangeOrder ::
  "Interpreter \<Rightarrow> bool \<Rightarrow> expression_t \<Rightarrow> expression_t \<Rightarrow> error_t list \<Rightarrow> error_t list" where
  "checkRangeOrder interpreter inRecord l u errs =
     (case evaluate interpreter l of
        None \<Rightarrow>
          if inRecord then handleError l ''Parameterised types not allowed in records'' errs
          else errs
      | Some lower \<Rightarrow>
          (case evaluate interpreter u of
             None \<Rightarrow>
               if inRecord then handleError u ''Parameterised types not allowed in records'' errs
               else errs
           | Some upper \<Rightarrow>
               if sint lower > sint upper then handleError u ''Invalid integer range'' errs
               else errs))"

text \<open>The last part of the array case of \<open>checkType\<close>, after size and element are checked.\<close>

definition checkArraySize :: "Interpreter \<Rightarrow> bool \<Rightarrow> type_t \<Rightarrow> error_t list \<Rightarrow> error_t list" where
  "checkArraySize interpreter inRecord asize errs =
     (if \<not> type_isScalar asize then
        handleError (snd (getRange asize)) ''Invalid array size'' errs
      else
        (case evaluate interpreter (fst (getRange asize)) of
           None \<Rightarrow>
             if inRecord then
               handleError (snd (getRange asize)) ''Parameterised types not allowed in records'' errs
             else errs
         | Some lower \<Rightarrow>
             (case evaluate interpreter (snd (getRange asize)) of
                None \<Rightarrow>
                  if inRecord then
                    handleError (snd (getRange asize))
                      ''Parameterised types not allowed in records'' errs
                  else errs
              | Some upper \<Rightarrow>
                  if sint lower > sint upper then
                    handleError (snd (getRange asize)) ''Invalid array size'' errs
                  else errs)))"

text \<open>The classification of the body of a \<open>forall\<close>, with the error of the last branch.\<close>

definition forallType :: "expression_t \<Rightarrow> error_t list \<Rightarrow> type_t \<times> error_t list" where
  "forallType body errs =
     (if isValue body then (prim BOOL, errs)
      else if isInvariant body then (prim INVARIANT, errs)
      else if isGuard body then (prim GUARD, errs)
      else if isConstraint body then (prim CONSTRAINT, errs)
      else (prim UNKNOWN, handleError body ''Boolean expected'' errs))"

text \<open>The symbol of an expression lies inside the expression.\<close>

lemma getSymbol_smaller: "getSymbol e = Some sy \<Longrightarrow> size sy < size e"
proof (induction e rule: getSymbol.induct)
  case 1
  then show ?case by simp
next
  case (2 k p t v s es)
  show ?case
  proof (cases es)
    case Nil
    with "2.prems" show ?thesis by (auto split: if_splits)
  next
    case (Cons a rest)
    note es = Cons
    show ?thesis
    proof (cases rest)
      case Nil
      with es "2.prems" "2.IH"(1) [of a rest] show ?thesis
        by (auto split: if_splits)
    next
      case (Cons b rest')
      with es "2.prems" "2.IH"(1) [of a rest] "2.IH"(2) [of a rest b rest'] show ?thesis
        by (auto split: if_splits)
    qed
  qed
qed

lemma getSymbol_type_smaller:
  "getSymbol e = Some sy \<Longrightarrow> size (symbol_getType sy) < size e"
proof -
  assume "getSymbol e = Some sy"
  then have "size sy < size e" by (rule getSymbol_smaller)
  moreover have "size (symbol_getType sy) < size sy" by (cases sy) simp
  ultimately show ?thesis by simp
qed
text \<open>
  \<open>TypeChecker::annotate\<close> and \<open>TypeChecker::checkType\<close>, for the interpreter of the
  constant valuation and the persistent variables \<open>P\<close>. \<open>annotate\<close> returns its flag
  together with the expression as annotated (the source writes the types into the shared
  nodes) and the error sink; \<open>annotateAll\<close> is the loop over the sub-expressions with
  \<open>ok &= annotate(expr[i])\<close>; \<open>checkFields\<close> is the loop of the record case of
  \<open>checkType\<close>. \<open>None\<close> is a failed assertion.

  In the function call case the source annotates \<open>expr[0]\<close> a second time; the node has
  just been annotated, so this reports its diagnostics once more and leaves the same
  annotation. In \<open>checkType\<close> an absent array size or sub-type is the unknown type, for
  which \<open>checkType\<close> does nothing.
\<close>

function annotate ::
    "Interpreter \<Rightarrow> symbol_t set \<Rightarrow> expression_t \<Rightarrow> error_t list
     \<Rightarrow> ((bool \<times> expression_t) \<times> error_t list) option"
  and annotateAll ::
    "Interpreter \<Rightarrow> symbol_t set \<Rightarrow> expression_t list \<Rightarrow> error_t list
     \<Rightarrow> ((bool \<times> expression_t list) \<times> error_t list) option"
  and checkType ::
    "Interpreter \<Rightarrow> symbol_t set \<Rightarrow> type_t \<Rightarrow> bool \<Rightarrow> error_t list \<Rightarrow> error_t list option"
  and checkFields ::
    "Interpreter \<Rightarrow> symbol_t set \<Rightarrow> symbol_t list \<Rightarrow> error_t list \<Rightarrow> error_t list option"
where
  "annotate interpreter P Empty errs = Some ((True, Empty), errs)"
| "annotate interpreter P (Expr k p t v s es) errs =
     (case annotateAll interpreter P es errs of
        None \<Rightarrow> None
      | Some ((ok, es'), errs1) \<Rightarrow>
          (let expr = Expr k p t v s es' in
           if \<not> ok then Some ((False, expr), errs1)
           else if length es' < arity k then None
           else if k = FUNCALL then
             (case es of
                [] \<Rightarrow> None
              | f # args \<Rightarrow>
                  (case annotate interpreter P f errs1 of
                     None \<Rightarrow> None
                   | Some (again, errs2) \<Rightarrow>
                       if getBase (getType (es' ! 0)) \<noteq> FUNCTION then
                         Some ((False, expr),
                               handleError (es' ! 0) ''Function name expected'' errs2)
                       else
                         (case checkFunctionCallArguments interpreter expr es' errs2 of
                            None \<Rightarrow> None
                          | Some errs3 \<Rightarrow> Some ((True, expr), errs3))))
           else if k = FORALL then
             (case es of
                [] \<Rightarrow> None
              | bound # rest \<Rightarrow>
                  (case (case getSymbol bound of
                           None \<Rightarrow> Some errs1
                         | Some sy \<Rightarrow>
                             checkType interpreter P (symbol_getType sy) False errs1) of
                     None \<Rightarrow> None
                   | Some errs2 \<Rightarrow>
                       (let typed = forallType (es' ! 1) errs2;
                            errs4 = (if \<not> isSideEffectFree P (es' ! 1) then
                                       handleError (es' ! 1)
                                         ''Expression must be side effect free'' (snd typed)
                                     else snd typed)
                        in Some ((True, setType expr (fst typed)), errs4))))
           else
             (case annotateSwitch interpreter expr k es' errs1 of
                (ReturnFalse, errs2) \<Rightarrow> Some ((False, expr), errs2)
              | (ReturnTrue, errs2) \<Rightarrow> Some ((True, expr), errs2)
              | (SetType type, errs2) \<Rightarrow> Some ((True, setType expr type), errs2))))"
| "annotateAll interpreter P [] errs = Some ((True, []), errs)"
| "annotateAll interpreter P (e # es) errs =
     (case annotate interpreter P e errs of
        None \<Rightarrow> None
      | Some ((ok, e'), errs1) \<Rightarrow>
          (case annotateAll interpreter P es errs1 of
             None \<Rightarrow> None
           | Some ((oks, es'), errs2) \<Rightarrow> Some ((ok \<and> oks, e' # es'), errs2)))"
| "checkType interpreter P (Type b ps lo hi sb sz fid fs) inRecord errs =
     (if b = INT_T \<or> b = SCALAR then
        (if \<not> empty lo then
           (case annotate interpreter P lo errs of
              None \<Rightarrow> None
            | Some ((ok1, l), errs1) \<Rightarrow>
                (let first = expectConstantInteger P ok1 l errs1 in
                 if \<not> fst first then Some (snd first)
                 else
                   (case annotate interpreter P hi (snd first) of
                      None \<Rightarrow> None
                    | Some ((ok2, u), errs2) \<Rightarrow>
                        (let second = expectConstantInteger P ok2 u errs2 in
                         if \<not> fst second then Some (snd second)
                         else Some (checkRangeOrder interpreter inRecord l u (snd second))))))
         else Some errs)
      else if b = ARRAY_T then
        (case (case sz of
                 None \<Rightarrow> Some errs
               | Some asize \<Rightarrow> checkType interpreter P asize False errs) of
           None \<Rightarrow> None
         | Some errs1 \<Rightarrow>
             (case (case sb of
                      None \<Rightarrow> Some errs1
                    | Some sub \<Rightarrow> checkType interpreter P sub inRecord errs1) of
                None \<Rightarrow> None
              | Some errs2 \<Rightarrow>
                  Some (checkArraySize interpreter inRecord
                          (getArraySize (Type b ps lo hi sb sz fid fs)) errs2)))
      else if b = RECORD then checkFields interpreter P fs errs
      else Some errs)"
| "checkFields interpreter P [] errs = Some errs"
| "checkFields interpreter P (f # fs) errs =
     (case f of
        Symbol n t \<Rightarrow>
          (case checkType interpreter P t True errs of
             None \<Rightarrow> None
           | Some errs1 \<Rightarrow> checkFields interpreter P fs errs1))"
  by pat_completeness auto
termination
  by (relation "measure (\<lambda>x. case x of
          Inl (Inl (interpreter, P, e, errs)) \<Rightarrow> 2 * size e
        | Inl (Inr (interpreter, P, es, errs)) \<Rightarrow> 2 * size_list size es + 1
        | Inr (Inl (interpreter, P, t, inRecord, errs)) \<Rightarrow> 2 * size t
        | Inr (Inr (interpreter, P, fs, errs)) \<Rightarrow> 2 * size_list size fs + 1)")
     (auto dest!: getSymbol_type_smaller simp: less_Suc_eq_le)

declare annotate.simps [simp del] annotateAll.simps [simp del]
  checkType.simps [simp del] checkFields.simps [simp del]

section \<open>Locations and edges\<close>


record edge_t =
  select :: frame_t
  guard :: expression_t
  sync :: expression_t
  assign :: expression_t


text \<open>The loop over the select frame in \<open>visitEdge\<close>: \<open>checkType\<close> of every symbol.\<close>

fun checkSelect ::
  "Interpreter \<Rightarrow> symbol_t set \<Rightarrow> symbol_t list \<Rightarrow> error_t list \<Rightarrow> error_t list option" where
  "checkSelect interpreter P [] errs = Some errs"
| "checkSelect interpreter P (f # fs) errs =
     (case checkType interpreter P (symbol_getType f) False errs of
        None \<Rightarrow> None
      | Some errs1 \<Rightarrow> checkSelect interpreter P fs errs1)"

text \<open>
  Modelled from the spec: \<open>expression_t::getSync\<close> and \<open>expression_t::getValue\<close> are not
  part of the sources. Both read the value slot of the node; the direction \<open>?\<close> is
  \<open>SYNC_QUE\<close>, the first enumerator, and \<open>!\<close> is \<open>SYNC_BANG\<close>.
\<close>

fun getValue :: "expression_t \<Rightarrow> int" where
  "getValue Empty = 0"
| "getValue (Expr k p t v s es) = v"

definition getSync :: "expression_t \<Rightarrow> synchronisation_t" where
  "getSync e = (if getValue e = 0 then SYNC_QUE else SYNC_BANG)"

text \<open>The guard part of \<open>TypeChecker::visitEdge\<close>.\<close>

definition visitEdge_guard ::
  "Interpreter \<Rightarrow> symbol_t set \<Rightarrow> edge_t \<Rightarrow> error_t list \<Rightarrow> (edge_t \<times> error_t list) option"
where
  "visitEdge_guard interpreter P edge errs =
     (if \<not> empty (guard edge) then
        (case annotate interpreter P (guard edge) errs of
           None \<Rightarrow> None
         | Some ((ok, g), errs1) \<Rightarrow>
             Some (edge\<lparr>guard := g\<rparr>,
                   if ok then
                     (if \<not> isGuard g then handleError g ''Invalid guard'' errs1
                      else if \<not> isSideEffectFree P g then
                        handleError g ''Guard must be side effect free'' errs1
                      else errs1)
                   else errs1))
      else Some (edge, errs))"

text \<open>The synchronisation part of \<open>TypeChecker::visitEdge\<close>.\<close>

definition visitEdge_sync ::
  "Interpreter \<Rightarrow> symbol_t set \<Rightarrow> edge_t \<Rightarrow> error_t list \<Rightarrow> (edge_t \<times> error_t list) option"
where
  "visitEdge_sync interpreter P edge errs =
     (if \<not> empty (sync edge) then
        (case annotate interpreter P (sync edge) errs of
           None \<Rightarrow> None
         | Some ((ok, sy), errs1) \<Rightarrow>
             if ok then
               (case get sy 0 of
                  None \<Rightarrow> None
                | Some head \<Rightarrow>
                    (let channel = getType head in
                     if getBase channel \<noteq> CHANNEL then
                       Some (edge\<lparr>sync := sy\<rparr>, handleError head ''Channel expected'' errs1)
                     else if \<not> isSideEffectFree P sy then
                       Some (edge\<lparr>sync := sy\<rparr>,
                             handleError sy ''Synchronisation must be side effect free'' errs1)
                     else
                       (let hasClockGuard = (\<not> empty (guard edge) \<and> \<not> isValue (guard edge));
                            isUrgent = hasPrefix channel URGENT;
                            receivesBroadcast =
                              (hasPrefix channel BROADCAST \<and> getSync sy = SYNC_QUE)
                        in if isUrgent \<and> hasClockGuard then
                             Some (edge\<lparr>sync := sy\<rparr>,
                                   handleError sy
                                     ''Clock guards are not allowed on urgent edges'' errs1)
                           else if receivesBroadcast \<and> hasClockGuard then
                             Some (edge\<lparr>sync := sy\<rparr>,
                                   handleError sy
                                     ''Clock guards are not allowed on broadcast receivers''
                                     errs1)
                           else Some (edge\<lparr>sync := sy\<rparr>, errs1))))
             else Some (edge\<lparr>sync := sy\<rparr>, errs1))
      else Some (edge, errs))"

text \<open>
  The assignment part of \<open>TypeChecker::visitEdge\<close>; the warning sink is threaded beside
  the error sink.
\<close>

definition visitEdge_assign ::
  "Interpreter \<Rightarrow> symbol_t set \<Rightarrow> edge_t \<Rightarrow> error_t list \<times> error_t list
   \<Rightarrow> (edge_t \<times> error_t list \<times> error_t list) option"
where
  "visitEdge_assign interpreter P edge sink =
     (case annotate interpreter P (assign edge) (fst sink) of
        None \<Rightarrow> None
      | Some ((ok, a), errs1) \<Rightarrow>
          if ok then
            Some (edge\<lparr>assign := a\<rparr>,
                  (if \<not> isValue a \<and> \<not> isScalar a \<and> \<not> isClock a \<and> \<not> isRecord a
                      \<and> \<not> isCost a \<and> \<not> isVoid a
                   then handleError a ''Invalid assignment expression'' errs1
                   else errs1),
                  (if \<not> (getKind a = Some CONSTANT \<and> getValue a = 1) \<and> isSideEffectFree P a
                   then handleError a ''Expression does not have any effect'' (snd sink)
                   else snd sink))
          else Some (edge\<lparr>assign := a\<rparr>, errs1, snd sink))"

text \<open>
  \<open>TypeChecker::visitEdge\<close>: select, guard, synchronisation and assignment, in this
  order. (The context that \<open>setContext...\<close> records only prefixes the reported position.)
\<close>

definition visitEdge ::
  "Interpreter \<Rightarrow> symbol_t set \<Rightarrow> edge_t \<Rightarrow> error_t list \<times> error_t list
   \<Rightarrow> (edge_t \<times> error_t list \<times> error_t list) option"
where
  "visitEdge interpreter P edge sink =
     (case checkSelect interpreter P (snd (select edge)) (fst sink) of
        None \<Rightarrow> None
      | Some errs1 \<Rightarrow>
          (case visitEdge_guard interpreter P edge errs1 of
             None \<Rightarrow> None
           | Some (edge1, errs2) \<Rightarrow>
               (case visitEdge_sync interpreter P edge1 errs2 of
                  None \<Rightarrow> None
                | Some (edge2, errs3) \<Rightarrow>
                    visitEdge_assign interpreter P edge2 (errs3, snd sink))))"

section \<open>Meaning of invariants\<close>

text \<open>
  The meaning of an expression under an arbitrary interpretation \<open>f\<close> of the kinds (with
  the value and the symbol of the node), independent of positions and type annotations;
  \<open>u\<close> is the meaning of the empty expression. An invariant holds as follows: the empty
  invariant holds; a conjunction holds iff both its operands hold; an equality holds iff
  both operands mean the same; any other expression holds iff its meaning is true in the
  sense of \<open>tr\<close>.
\<close>

fun denote ::
  "(kind_t \<Rightarrow> int \<Rightarrow> symbol_t option \<Rightarrow> 'v list \<Rightarrow> 'v) \<Rightarrow> 'v \<Rightarrow> expression_t \<Rightarrow> 'v" where
  "denote f u Empty = u"
| "denote f u (Expr k p t v s es) = f k v s (map (denote f u) es)"


text \<open>The expression \<open>rate(c)\<close>, as the builder creates it.\<close>

definition rateOf :: "expression_t \<Rightarrow> expression_t" where
  "rateOf c = createUnary 0 RATE c (prim RATE_T)"

text \<open>
  An expression is an application of \<open>rate\<close> iff it is a node of kind RATE with one
  operand and nothing in its value and symbol slots.
\<close>

fun isRateApplication :: "expression_t \<Rightarrow> bool" where
  "isRateApplication (Expr k p t v s [c]) = (k = RATE \<and> v = 0 \<and> s = None)"
| "isRateApplication e = False"








section \<open>Example inputs\<close>

text \<open>Concrete types, expressions and interpreters at which the properties are exercised.\<close>

definition chanType :: "prefix_t set \<Rightarrow> type_t" where
  "chanType ps = Type CHANNEL ps Empty Empty None None 0 []"

definition chanId :: "prefix_t set \<Rightarrow> expression_t" where
  "chanId ps = Expr IDENTIFIER 7 (chanType ps) 0 (Some (Symbol ''a'' (chanType ps))) []"

definition noInterpreter :: Interpreter where
  "noInterpreter = \<lparr> valueOf = (\<lambda>e. None), valuesOf = (\<lambda>e. None) \<rparr>"

definition constInterpreter :: Interpreter where
  "constInterpreter =
     \<lparr> valueOf = (\<lambda>e. case e of
                         Empty \<Rightarrow> None
                       | Expr k p t v s es \<Rightarrow> if k = CONSTANT then Some (word_of_int v) else None),
       valuesOf = (\<lambda>e. case e of
                         Empty \<Rightarrow> None
                       | Expr k p t v s es \<Rightarrow> if k = CONSTANT then Some [word_of_int v] else None) \<rparr>"

definition intType :: "int \<Rightarrow> int \<Rightarrow> type_t" where
  "intType lo hi = createInteger (createConstant 0 lo) (createConstant 0 hi)"

definition recordType :: type_t where
  "recordType = Type RECORD {} Empty Empty None None 1
                  [Symbol ''a'' (intType 0 3), Symbol ''b'' (intType 0 3)]"

definition recordId :: expression_t where
  "recordId = Expr IDENTIFIER 9 recordType 0 (Some (Symbol ''s'' recordType)) []"

definition recordList :: expression_t where
  "recordList =
     Expr LIST 3
       (Type RECORD {} Empty Empty None None 2
          [Symbol ''b'' (prim INT_T), Symbol ''a'' (prim INT_T)])
       0 None [createConstant 4 2, createConstant 5 1]"

definition arrayType :: type_t where
  "arrayType = Type ARRAY_T {} Empty Empty (Some (intType 0 3)) (Some (intType 0 1)) 0 []"

definition arrayList :: expression_t where
  "arrayList =
     Expr LIST 3
       (Type RECORD {} Empty Empty None None 2 [Symbol [] (prim INT_T), Symbol [] (prim INT_T)])
       0 None [createConstant 4 2, createConstant 5 1]"

definition varId :: "string \<Rightarrow> type_t \<Rightarrow> expression_t" where
  "varId name ty = Expr IDENTIFIER 1 ty 0 (Some (Symbol name ty)) []"

definition clockPlusAssign :: expression_t where
  "clockPlusAssign =
     Expr ASSPLUS 2 (prim UNKNOWN) 0 None [varId ''x'' (prim CLOCK), createConstant 3 1]"

definition forallClock :: expression_t where
  "forallClock =
     Expr FORALL 2 (prim UNKNOWN) 0 None [varId ''i'' (intType 0 3), varId ''x'' (prim CLOCK)]"

definition boolMinusAssign :: expression_t where
  "boolMinusAssign =
     Expr ASSMINUS 2 (prim UNKNOWN) 0 None [varId ''b'' (prim BOOL), createConstant 3 1]"

definition costId :: expression_t where
  "costId = varId ''cost'' (prim COST)"

definition clockId :: expression_t where
  "clockId = varId ''c'' (prim CLOCK)"

definition rateEquality :: "type_t \<Rightarrow> type_t \<Rightarrow> expression_t" where
  "rateEquality t1 t2 =
     Expr EQ 5 t2 0 None [Expr RATE 4 t1 0 None [costId], createConstant 6 2]"

definition clockBound :: "type_t \<Rightarrow> expression_t" where
  "clockBound t = Expr LE 7 t 0 None [clockId, createConstant 8 10]"

definition boundAndRate :: "type_t \<Rightarrow> type_t \<Rightarrow> type_t \<Rightarrow> type_t \<Rightarrow> expression_t" where
  "boundAndRate t1 t2 t3 t4 = Expr AND 9 t4 0 None [clockBound t3, rateEquality t1 t2]"

definition urgentChannels :: type_t where
  "urgentChannels =
     Type ARRAY_T {} Empty Empty (Some (chanType {URGENT})) (Some (intType 0 1)) 0 []"

definition counterSymbol :: symbol_t where
  "counterSymbol = Symbol ''i'' (prim INT_T)"

definition postIncrement :: "type_t \<Rightarrow> expression_t" where
  "postIncrement t = Expr POSTINCREMENT 2 t 0 None [varId ''i'' (prim INT_T)]"

definition indexedChannel :: "type_t \<Rightarrow> type_t \<Rightarrow> expression_t" where
  "indexedChannel t1 t2 = Expr ARRAY 3 t2 0 None [varId ''a'' urgentChannels, postIncrement t1]"

definition sendIndexed :: "type_t \<Rightarrow> type_t \<Rightarrow> expression_t" where
  "sendIndexed t1 t2 = Expr SYNC 4 (prim UNKNOWN) 1 None [indexedChannel t1 t2]"

definition sendUrgent :: expression_t where
  "sendUrgent = Expr SYNC 4 (prim UNKNOWN) 1 None [chanId {URGENT}]"

definition edgeWith :: "expression_t \<Rightarrow> expression_t \<Rightarrow> edge_t" where
  "edgeWith g s = \<lparr> select = (0, []), guard = g, sync = s, assign = createConstant 0 1 \<rparr>"










section \<open>Verified properties\<close>

subsection \<open>Template and function parameters\<close>

lemma resolveArrays_not_array:
  "getBase P \<noteq> ARRAY_T \<Longrightarrow> resolveArrays P Q = Inr (P, Q)"
  by (cases P) simp

lemma channelCapability_channel:
  "getBase t = CHANNEL \<Longrightarrow>
   channelCapability t =
     Some (if hasPrefix t URGENT then 0 else if hasPrefix t BROADCAST then 1 else 2)"
  by (simp add: channelCapability_def)

lemma handleError_neq: "handleError e m errs \<noteq> errs"
  by (simp add: handleError_def)

lemma try_reference_requires_lhs:
  "hasPrefix paramType REFERENCE \<Longrightarrow> \<not> hasPrefix paramType CONSTANT_P \<Longrightarrow> \<not> isLHSValue arg \<Longrightarrow>
   checkParameterCompatible_try interpreter paramType arg
     = Thrown ''Reference parameter requires left value argument''"
  by (simp add: checkParameterCompatible_try_def)

text \<open>
  C4. For a formal parameter of channel type \<open>P\<close> and an argument of channel type \<open>Q\<close>, the
  capability of an urgent channel is 0, of a non-urgent broadcast channel 1 and of any other
  channel 2. Whenever \<open>checkParameterCompatible\<close> reports no error, the capability of the
  argument is at least that of the formal; and once the argument has passed the
  requirement that a non-constant reference parameter gets a left-hand side value, which
  is checked before the channel case is reached, no error is reported if and only if the
  capability of the argument is at least that of the formal.
\<close>

theorem channel_parameter_accepts_iff_capability:
  assumes P: "getBase P = CHANNEL" and Q: "getBase (getType arg) = CHANNEL"
  shows "\<exists>cq cp.
           channelCapability (getType arg) = Some cq \<and> channelCapability P = Some cp
         \<and> cq = (if hasPrefix (getType arg) URGENT then 0
                 else if hasPrefix (getType arg) BROADCAST then 1 else 2)
         \<and> cp = (if hasPrefix P URGENT then 0 else if hasPrefix P BROADCAST then 1 else 2)
         \<and> (checkParameterCompatible interpreter P arg errs = Some errs \<longrightarrow> cp \<le> cq)
         \<and> (\<not> (hasPrefix P REFERENCE \<and> \<not> hasPrefix P CONSTANT_P \<and> \<not> isLHSValue arg) \<longrightarrow>
              (checkParameterCompatible interpreter P arg errs = Some errs \<longleftrightarrow> cp \<le> cq))"
proof -
  have ra: "resolveArrays P (getType arg) = Inr (P, getType arg)"
    using P by (simp add: resolveArrays_not_array)
  show ?thesis
    using P Q ra
    by (simp add: channelCapability_channel checkParameterCompatible_def
        checkParameterCompatible_try_def Let_def handleError_neq)
qed

theorem channel_parameter_accepts_iff_capability_witness:
  "getBase (chanType {BROADCAST, REFERENCE}) = CHANNEL
   \<and> getBase (getType (chanId {})) = CHANNEL
   \<and> isLHSValue (chanId {})
   \<and> channelCapability (getType (chanId {})) = Some 2
   \<and> channelCapability (chanType {BROADCAST, REFERENCE}) = Some 1
   \<and> checkParameterCompatible noInterpreter (chanType {BROADCAST, REFERENCE}) (chanId {}) []
       = Some []"
proof -
  have P: "getBase (chanType {BROADCAST, REFERENCE}) = CHANNEL" by (simp add: chanType_def)
  have Q: "getBase (getType (chanId {})) = CHANNEL" by (simp add: chanId_def chanType_def)
  have L: "isLHSValue (chanId {})" by (simp add: chanId_def chanType_def)
  from channel_parameter_accepts_iff_capability [OF P Q, of noInterpreter "[]"] L
  show ?thesis
    by (simp add: chanId_def chanType_def channelCapability_def)
qed

text \<open>
  C9. For one argument checked against one formal parameter, \<open>checkParameterCompatible\<close>
  reports at most one error, and that error is reported at the argument expression: the
  first check that fails throws, and the thrown message is the only one reported. In
  particular, when a non-constant reference parameter gets an argument that is not a
  left-hand side value, the error is the one of that first check, whatever the later
  checks would find.
\<close>

theorem checkParameterCompatible_at_most_one_error:
  assumes "checkParameterCompatible interpreter paramType arg errs = Some errs'"
  shows "(errs' = errs \<or> (\<exists>msg. errs' = errs @ [(arg, msg)]))
       \<and> (hasPrefix paramType REFERENCE \<and> \<not> hasPrefix paramType CONSTANT_P \<and> \<not> isLHSValue arg
            \<longrightarrow> errs' = errs @ [(arg, ''Reference parameter requires left value argument'')])"
proof (intro conjI impI)
  show "errs' = errs \<or> (\<exists>msg. errs' = errs @ [(arg, msg)])"
    using assms
    by (auto simp: checkParameterCompatible_def handleError_def split: outcome_t.splits)
next
  assume "hasPrefix paramType REFERENCE \<and> \<not> hasPrefix paramType CONSTANT_P \<and> \<not> isLHSValue arg"
  then have "checkParameterCompatible_try interpreter paramType arg
     = Thrown ''Reference parameter requires left value argument''"
    by (simp add: try_reference_requires_lhs)
  with assms show "errs' = errs @ [(arg, ''Reference parameter requires left value argument'')]"
    by (simp add: checkParameterCompatible_def handleError_def)
qed

theorem checkParameterCompatible_at_most_one_error_witness:
  "checkParameterCompatible noInterpreter (chanType {REFERENCE}) (chanId {URGENT}) []
     = Some [(chanId {URGENT}, ''Incompatible channel type'')]
   \<and> hasPrefix (chanType {REFERENCE}) REFERENCE
   \<and> \<not> hasPrefix (chanType {REFERENCE}) CONSTANT_P
   \<and> \<not> isLHSValue (chanId {CONSTANT_P})
   \<and> checkParameterCompatible noInterpreter (chanType {REFERENCE}) (chanId {CONSTANT_P}) []
     = Some [(chanId {CONSTANT_P}, ''Reference parameter requires left value argument'')]"
proof -
  have a: "checkParameterCompatible noInterpreter (chanType {REFERENCE}) (chanId {URGENT}) []
     = Some [(chanId {URGENT}, ''Incompatible channel type'')]"
    by (simp add: checkParameterCompatible_def checkParameterCompatible_try_def chanId_def
        chanType_def channelCapability_def handleError_def Let_def)
  have b: "\<exists>es. checkParameterCompatible noInterpreter (chanType {REFERENCE})
                  (chanId {CONSTANT_P}) [] = Some es"
    by (simp add: checkParameterCompatible_def checkParameterCompatible_try_def chanId_def
        chanType_def channelCapability_def handleError_def Let_def)
  then obtain es where es:
    "checkParameterCompatible noInterpreter (chanType {REFERENCE}) (chanId {CONSTANT_P}) []
       = Some es" ..
  have c: "hasPrefix (chanType {REFERENCE}) REFERENCE
     \<and> \<not> hasPrefix (chanType {REFERENCE}) CONSTANT_P
     \<and> \<not> isLHSValue (chanId {CONSTANT_P})"
    by (simp add: chanId_def chanType_def)
  from checkParameterCompatible_at_most_one_error [OF es] c es a show ?thesis by simp
qed

subsection \<open>Initialisers\<close>

lemma array_fold_stopped:
  "fold (\<lambda>(f, e) st. arrayStep f e (chk e (snd st)) st) xs (ArrayStopped x, errs)
     = (ArrayStopped x, errs)"
  by (induction xs) (auto simp: arrayStep_def)

lemma arrayStep_named:
  "getName f \<noteq> [] \<Longrightarrow>
   arrayStep f e c (ArrayRunning i res, errs)
     = (ArrayStopped (InitialiserException e ''Unknown field specified in initialiser''), errs)"
  by (simp add: arrayStep_def)

lemma arrayStep_checked:
  "getName f = [] \<Longrightarrow> fst c = Initialised r \<Longrightarrow>
   arrayStep f e c (ArrayRunning i res, errs) = (ArrayRunning (i + 1) (res[i := r]), snd c)"
  by (simp add: arrayStep_def)

lemma arrayStep_failed:
  "getName f = [] \<Longrightarrow> \<forall>r. fst c \<noteq> Initialised r \<Longrightarrow>
   arrayStep f e c (ArrayRunning i res, errs) = (ArrayStopped (fst c), snd c)"
  by (cases "fst c") (simp_all add: arrayStep_def)

lemma array_fold_running:
  "fold (\<lambda>(f, e) st. arrayStep f e (chk e (snd st)) st) xs (ArrayRunning i res, errs)
     = (ArrayRunning j res', errs')
   \<Longrightarrow> length res' = length res \<and> (\<forall>x \<in> set xs. getName (fst x) = [])"
proof (induction xs arbitrary: i res errs)
  case Nil
  then show ?case by simp
next
  case (Cons x xs)
  obtain f e where x: "x = (f, e)" by (cases x)
  show ?case
  proof (cases "getName f \<noteq> []")
    case True
    with Cons.prems x show ?thesis
      by (simp add: arrayStep_named array_fold_stopped)
  next
    case False
    show ?thesis
    proof (cases "\<exists>r. fst (chk e errs) = Initialised r")
      case True
      then obtain r where r: "fst (chk e errs) = Initialised r" ..
      with False Cons.prems x
      have "fold (\<lambda>(f, e) st. arrayStep f e (chk e (snd st)) st) xs
              (ArrayRunning (i + 1) (res[i := r]), snd (chk e errs))
            = (ArrayRunning j res', errs')"
        by (simp add: arrayStep_checked)
      from Cons.IH [OF this] False x show ?thesis by simp
    next
      case no: False
      with False Cons.prems x show ?thesis
        by (simp add: arrayStep_failed array_fold_stopped)
    qed
  qed
qed

lemma arrayStep_no_stopped_ok:
  "\<forall>r. fst st \<noteq> ArrayStopped (Initialised r) \<Longrightarrow>
   \<forall>r. fst (arrayStep f e c st) \<noteq> ArrayStopped (Initialised r)"
  by (auto simp: arrayStep_def split: array_loop_t.splits init_result_t.splits)

lemma array_fold_no_stopped_ok:
  "\<forall>r. fst st \<noteq> ArrayStopped (Initialised r) \<Longrightarrow>
   \<forall>r. fst (fold (\<lambda>(f, e) st. arrayStep f e (chk e (snd st)) st) xs st)
         \<noteq> ArrayStopped (Initialised r)"
proof (induction xs arbitrary: st)
  case Nil
  then show ?case by simp
next
  case (Cons x xs)
  obtain f e where x: "x = (f, e)" by (cases x)
  have "\<forall>r. fst (arrayStep f e (chk e (snd st)) st) \<noteq> ArrayStopped (Initialised r)"
    using Cons.prems by (rule arrayStep_no_stopped_ok)
  from Cons.IH [OF this] x show ?case by simp
qed

lemma zip_covers_left:
  assumes "length xs \<le> length ys" and "x \<in> set xs"
  shows "\<exists>y. (x, y) \<in> set (zip xs ys)"
proof -
  from assms(2) obtain i where i: "i < length xs" "xs ! i = x"
    by (auto simp: in_set_conv_nth)
  with assms(1) have "i < length (zip xs ys)" and "zip xs ys ! i = (x, ys ! i)" by simp_all
  then have "(x, ys ! i) \<in> set (zip xs ys)" by (metis nth_mem)
  then show ?thesis ..
qed

lemma array_initialiser_shape:
  assumes ok: "checkInitialiser I ty init errs = (Initialised r, errs')"
    and arr: "getBase ty = ARRAY_T"
  shows "\<exists>lower upper.
           evaluate I (fst (getRange (getArraySize ty))) = Some lower
         \<and> evaluate I (snd (getRange (getArraySize ty))) = Some upper
         \<and> getKind r = Some LIST \<and> getType r = ty
         \<and> getSize r = unat (upper - lower + 1)
         \<and> getSize init = unat (upper - lower + 1)
         \<and> (\<forall>f \<in> set (snd (getRecordFields (getType init))). getName f = [])"
proof -
  let ?size = "getArraySize ty"
  let ?flds = "getRecordFields (getType init)"
  let ?loop = "fold (\<lambda>(field, init_i) st.
                      arrayStep field init_i (checkInitialiser I (getSub ty) init_i (snd st)) st)
                 (zip (snd ?flds) (subexprs init))
                 (ArrayRunning 0 (replicate (frame_getSize ?flds) Empty), errs)"
  from ok arr have kind: "getKind init = Some LIST"
    by (auto simp: checkInitialiser.simps [of I ty init errs] split: if_splits)
  from ok arr kind have isint: "type_isInteger ?size"
    by (auto simp: checkInitialiser.simps [of I ty init errs] Let_def split: if_splits)
  from ok arr kind isint obtain lower where lower: "evaluate I (fst (getRange ?size)) = Some lower"
    by (cases "evaluate I (fst (getRange ?size))")
       (auto simp: checkInitialiser.simps [of I ty init errs] Let_def)
  from ok arr kind isint lower obtain upper
    where upper: "evaluate I (snd (getRange ?size)) = Some upper"
    by (cases "evaluate I (snd (getRange ?size))")
       (auto simp: checkInitialiser.simps [of I ty init errs] Let_def)
  let ?dim = "upper - lower + 1"
  from ok arr kind isint lower upper have le: "\<not> getSize init > unat ?dim"
    by (auto simp: checkInitialiser.simps [of I ty init errs] Let_def split: if_splits)
  from ok arr kind isint lower upper le
  have rest: "(case fst ?loop of
                 ArrayStopped x \<Rightarrow> (x, snd ?loop)
               | ArrayRunning i result \<Rightarrow>
                   if getSize init < frame_getSize ?flds then (IndexAssertion, snd ?loop)
                   else if frame_getSize ?flds < unat ?dim then
                     (InitialiserException init ''Missing fields in initialiser'', snd ?loop)
                   else (Initialised (createNary (getPosition init) LIST result ty), snd ?loop))
              = (Initialised r, errs')"
    by (simp add: checkInitialiser.simps [of I ty init errs] Let_def)
  have "\<forall>r. fst ?loop \<noteq> ArrayStopped (Initialised r)"
    by (rule array_fold_no_stopped_ok) simp
  with rest obtain j result where run: "fst ?loop = ArrayRunning j result"
    by (cases "fst ?loop") (auto split: if_splits)
  with rest have a: "\<not> getSize init < frame_getSize ?flds"
    and b: "\<not> frame_getSize ?flds < unat ?dim"
    and r: "r = createNary (getPosition init) LIST result ty"
    by (auto split: if_splits)
  have "?loop = (ArrayRunning j result, snd ?loop)"
    by (simp only: prod_eq_iff fst_conv snd_conv run simp_thms)
  from array_fold_running [OF this]
  have len: "length result = frame_getSize ?flds"
    and names: "\<forall>x \<in> set (zip (snd ?flds) (subexprs init)). getName (fst x) = []"
    by simp_all
  have sz: "getSize init = length (subexprs init)" by (cases init) simp_all
  from a b le have eq: "frame_getSize ?flds = unat ?dim" "getSize init = unat ?dim" by simp_all
  have "\<forall>f \<in> set (snd ?flds). getName f = []"
  proof
    fix f assume f: "f \<in> set (snd ?flds)"
    have "length (snd ?flds) \<le> length (subexprs init)"
      using a sz by (simp add: frame_getSize_def)
    from zip_covers_left [OF this f]
    obtain y where "(f, y) \<in> set (zip (snd ?flds) (subexprs init))" ..
    with names have "getName (fst (f, y)) = []" by (rule bspec)
    then show "getName f = []" by simp
  qed
  with lower upper r len eq show ?thesis
    by (simp add: createNary_def)
qed


lemma record_fold_stopped:
  "fold (\<lambda>(ini, e) st. recordStep flds ini e (\<lambda>ty es. chk ty e es) st) xs (RecordStopped x, errs)
     = (RecordStopped x, errs)"
  by (induction xs) (auto simp: recordStep_def)

lemma record_fold_broken:
  "fold (\<lambda>(ini, e) st. recordStep flds ini e (\<lambda>ty es. chk ty e es) st) xs (RecordBroken res, errs)
     = (RecordBroken res, errs)"
  by (induction xs) (auto simp: recordStep_def)

lemma indexOfName_ge: "-1 \<le> indexOfName fs name"
  by (induction fs) (auto simp: Let_def)

lemma recordTarget_nonneg:
  "0 \<le> c \<Longrightarrow> \<not> (getName ini \<noteq> [] \<and> recordTarget flds ini c = -1) \<Longrightarrow>
   0 \<le> recordTarget flds ini c"
  using indexOfName_ge [of "snd flds" "getName ini"]
  by (auto simp: recordTarget_def getIndexOf_def)

lemma recordStep_running_cases:
  assumes "recordStep flds ini e chk (RecordRunning c res, errs) = (st', errs')"
    and "0 \<le> c"
  shows "st' = RecordBroken res
       \<or> (st' = RecordRunning (recordTarget flds ini c + 1) res \<and> 0 \<le> recordTarget flds ini c)
       \<or> (\<exists>r. chk (symbol_getType (snd flds ! nat (recordTarget flds ini c))) errs
                  = (Initialised r, errs')
              \<and> st' = RecordRunning (recordTarget flds ini c + 1)
                         (res[nat (recordTarget flds ini c) := r])
              \<and> 0 \<le> recordTarget flds ini c)
       \<or> (\<exists>x. st' = RecordStopped x)"
proof (cases "getName ini \<noteq> [] \<and> recordTarget flds ini c = -1")
  case True
  with assms show ?thesis by (auto simp: recordStep_def Let_def)
next
  case False
  with assms(2) have nn: "0 \<le> recordTarget flds ini c" by (rule recordTarget_nonneg)
  show ?thesis
  proof (cases "recordTarget flds ini c \<ge> int (frame_getSize flds)")
    case True
    with False assms show ?thesis by (auto simp: recordStep_def Let_def)
  next
    case inrange: False
    show ?thesis
    proof (cases "empty (res ! nat (recordTarget flds ini c))")
      case notempty: False
      with False inrange assms nn show ?thesis by (auto simp: recordStep_def Let_def)
    next
      case True
      with False inrange assms nn show ?thesis
        by (auto simp: recordStep_def Let_def split: prod.splits init_result_t.splits)
    qed
  qed
qed

lemma record_fold_running:
  assumes "fold (\<lambda>(ini, e) st. recordStep flds ini e (\<lambda>ty es. chk ty e es) st) xs
             (RecordRunning c res, errs) = (st1, errs1)"
    and "st1 = RecordRunning c' res' \<or> st1 = RecordBroken res'"
    and "0 \<le> c"
  shows "length res' = length res
       \<and> (\<forall>k < length res.
            res' ! k = res ! k
          \<or> (\<exists>x \<in> set xs. \<exists>es es'.
                 chk (symbol_getType (snd flds ! k)) (snd x) es = (Initialised (res' ! k), es')
               \<and> (getName (fst x) \<noteq> [] \<longrightarrow> getIndexOf flds (getName (fst x)) = int k)))"
  using assms
proof (induction xs arbitrary: c res errs)
  case Nil
  then show ?case by auto
next
  case (Cons x xs)
  obtain ini e where x: "x = (ini, e)" by (cases x)
  obtain st' errs' where step:
    "recordStep flds ini e (\<lambda>ty es. chk ty e es) (RecordRunning c res, errs) = (st', errs')"
    by (cases "recordStep flds ini e (\<lambda>ty es. chk ty e es) (RecordRunning c res, errs)")
  with Cons.prems(1) x
  have rest: "fold (\<lambda>(ini, e) st. recordStep flds ini e (\<lambda>ty es. chk ty e es) st) xs (st', errs')
                = (st1, errs1)"
    by simp
  let ?cur = "recordTarget flds ini c"
  from recordStep_running_cases [OF step Cons.prems(3)]
  consider (broken) "st' = RecordBroken res"
    | (multiple) "st' = RecordRunning (?cur + 1) res" "0 \<le> ?cur"
    | (checked) r where
        "chk (symbol_getType (snd flds ! nat ?cur)) e errs = (Initialised r, errs')"
        "st' = RecordRunning (?cur + 1) (res[nat ?cur := r])" "0 \<le> ?cur"
    | (stopped) y where "st' = RecordStopped y"
    by blast
  then show ?case
  proof cases
    case broken
    with rest Cons.prems(2) show ?thesis by (auto simp: record_fold_broken)
  next
    case multiple
    with rest have "fold (\<lambda>(ini, e) st. recordStep flds ini e (\<lambda>ty es. chk ty e es) st) xs
                      (RecordRunning (?cur + 1) res, errs') = (st1, errs1)" by simp
    from Cons.IH [OF this Cons.prems(2)] multiple(2)
    have "length res' = length res
       \<and> (\<forall>k < length res.
            res' ! k = res ! k
          \<or> (\<exists>x \<in> set xs. \<exists>es es'.
                 chk (symbol_getType (snd flds ! k)) (snd x) es = (Initialised (res' ! k), es')
               \<and> (getName (fst x) \<noteq> [] \<longrightarrow> getIndexOf flds (getName (fst x)) = int k)))"
      by simp
    then show ?thesis by auto
  next
    case stopped
    with rest Cons.prems(2) show ?thesis by (auto simp: record_fold_stopped)
  next
    case checked
    let ?res1 = "res[nat ?cur := r]"
    from checked rest
    have "fold (\<lambda>(ini, e) st. recordStep flds ini e (\<lambda>ty es. chk ty e es) st) xs
            (RecordRunning (?cur + 1) ?res1, errs') = (st1, errs1)" by simp
    from Cons.IH [OF this Cons.prems(2)] checked(3)
    have ih: "length res' = length ?res1"
      "\<forall>k < length ?res1.
            res' ! k = ?res1 ! k
          \<or> (\<exists>x \<in> set xs. \<exists>es es'.
                 chk (symbol_getType (snd flds ! k)) (snd x) es = (Initialised (res' ! k), es')
               \<and> (getName (fst x) \<noteq> [] \<longrightarrow> getIndexOf flds (getName (fst x)) = int k))"
      by simp_all
    have named: "getName ini \<noteq> [] \<longrightarrow> getIndexOf flds (getName ini) = ?cur"
      by (simp add: recordTarget_def)
    have "\<forall>k < length res.
            res' ! k = res ! k
          \<or> (\<exists>x \<in> set (x # xs). \<exists>es es'.
                 chk (symbol_getType (snd flds ! k)) (snd x) es = (Initialised (res' ! k), es')
               \<and> (getName (fst x) \<noteq> [] \<longrightarrow> getIndexOf flds (getName (fst x)) = int k))"
    proof (intro allI impI)
      fix k assume k: "k < length res"
      from ih(2) k
      consider (same) "res' ! k = ?res1 ! k"
        | (later) "\<exists>x \<in> set xs. \<exists>es es'.
                 chk (symbol_getType (snd flds ! k)) (snd x) es = (Initialised (res' ! k), es')
               \<and> (getName (fst x) \<noteq> [] \<longrightarrow> getIndexOf flds (getName (fst x)) = int k)"
        by auto
      then show "res' ! k = res ! k
          \<or> (\<exists>x \<in> set (x # xs). \<exists>es es'.
                 chk (symbol_getType (snd flds ! k)) (snd x) es = (Initialised (res' ! k), es')
               \<and> (getName (fst x) \<noteq> [] \<longrightarrow> getIndexOf flds (getName (fst x)) = int k))"
      proof cases
        case later
        then show ?thesis by auto
      next
        case same
        show ?thesis
        proof (cases "k = nat ?cur")
          case False
          with same show ?thesis by simp
        next
          case True
          with same k have "res' ! k = r" by simp
          with checked(1) True
          have "chk (symbol_getType (snd flds ! k)) (snd x) errs = (Initialised (res' ! k), errs')"
            using x by simp
          moreover from named True checked(3)
          have "getName (fst x) \<noteq> [] \<longrightarrow> getIndexOf flds (getName (fst x)) = int k"
            using x by simp
          ultimately show ?thesis by auto
        qed
      qed
    qed
    with ih(1) show ?thesis by simp
  qed
qed

lemma record_fold_no_stopped_ok:
  "\<forall>r. fst st \<noteq> RecordStopped (Initialised r) \<Longrightarrow>
   \<forall>r. fst (fold (\<lambda>(ini, e) st. recordStep flds ini e (\<lambda>ty es. chk ty e es) st) xs st)
         \<noteq> RecordStopped (Initialised r)"
proof (induction xs arbitrary: st)
  case Nil
  then show ?case by simp
next
  case (Cons x xs)
  obtain ini e where x: "x = (ini, e)" by (cases x)
  have "\<forall>r. fst (recordStep flds ini e (\<lambda>ty es. chk ty e es) st) \<noteq> RecordStopped (Initialised r)"
    using Cons.prems
    by (auto simp: recordStep_def Let_def
        split: record_loop_t.splits init_result_t.splits prod.splits)
  from Cons.IH [OF this] x show ?case by simp
qed

lemma record_initialiser_shape:
  assumes ok: "checkInitialiser I ty init errs = (Initialised r, errs')"
    and rec: "getBase ty = RECORD"
    and rewritten: "\<not> (getBase (getType init) = RECORD
                      \<and> frame_eq (getRecordFields ty) (getRecordFields (getType init)))"
  shows "getKind r = Some LIST \<and> getType r = ty
       \<and> getSize r = frame_getSize (getRecordFields ty)
       \<and> (\<forall>k < frame_getSize (getRecordFields ty).
             \<not> empty (subexprs r ! k)
           \<and> (\<exists>x \<in> set (zip (snd (getRecordFields (getType init))) (subexprs init)).
                \<exists>es es'.
                  checkInitialiser I (symbol_getType (snd (getRecordFields ty) ! k)) (snd x) es
                    = (Initialised (subexprs r ! k), es')
                \<and> (getName (fst x) \<noteq> [] \<longrightarrow>
                     getIndexOf (getRecordFields ty) (getName (fst x)) = int k)))"
proof -
  let ?flds = "getRecordFields ty"
  let ?inis = "getRecordFields (getType init)"
  let ?n = "frame_getSize ?flds"
  let ?loop = "fold (\<lambda>(ini, e) st.
                      recordStep ?flds ini e (\<lambda>ty es. checkInitialiser I ty e es) st)
                 (zip (snd ?inis) (subexprs init))
                 (RecordRunning 0 (replicate ?n Empty), errs)"
  let ?finish = "\<lambda>result.
                   if \<exists>i < ?n. empty (result ! i) then
                     (InitialiserException init ''Incomplete initialiser'', snd ?loop)
                   else (Initialised (createNary (getPosition init) LIST result ty), snd ?loop)"
  from ok rec rewritten have kind: "getKind init = Some LIST"
    by (auto simp: checkInitialiser.simps [of I ty init errs] split: if_splits)
  from ok rec rewritten kind
  have rest: "(case fst ?loop of
                 RecordStopped x \<Rightarrow> (x, snd ?loop)
               | RecordBroken result \<Rightarrow> ?finish result
               | RecordRunning current result \<Rightarrow>
                   if getSize init < frame_getSize ?inis then (IndexAssertion, snd ?loop)
                   else ?finish result)
              = (Initialised r, errs')"
    by (simp add: checkInitialiser.simps [of I ty init errs] Let_def)
  have nostop: "\<forall>r. fst ?loop \<noteq> RecordStopped (Initialised r)"
    by (rule record_fold_no_stopped_ok) simp
  from rest nostop obtain c' res' where
    fin: "fst ?loop = RecordRunning c' res' \<or> fst ?loop = RecordBroken res'"
    and finished: "?finish res' = (Initialised r, errs')"
    by (cases "fst ?loop") (auto split: if_splits)
  from finished have full: "\<not> (\<exists>i < ?n. empty (res' ! i))"
    and r: "r = createNary (getPosition init) LIST res' ty"
    by (auto split: if_splits)
  have loop: "?loop = (fst ?loop, snd ?loop)" by (simp only: prod.collapse)
  from record_fold_running [where chk = "\<lambda>ty e es. checkInitialiser I ty e es", OF loop fin]
  have len: "length res' = ?n"
    and slots: "\<forall>k < ?n.
            res' ! k = replicate ?n Empty ! k
          \<or> (\<exists>x \<in> set (zip (snd ?inis) (subexprs init)). \<exists>es es'.
                 checkInitialiser I (symbol_getType (snd ?flds ! k)) (snd x) es
                   = (Initialised (res' ! k), es')
               \<and> (getName (fst x) \<noteq> [] \<longrightarrow> getIndexOf ?flds (getName (fst x)) = int k))"
    by simp_all
  have "\<forall>k < ?n.
             \<not> empty (res' ! k)
           \<and> (\<exists>x \<in> set (zip (snd ?inis) (subexprs init)). \<exists>es es'.
                 checkInitialiser I (symbol_getType (snd ?flds ! k)) (snd x) es
                   = (Initialised (res' ! k), es')
               \<and> (getName (fst x) \<noteq> [] \<longrightarrow> getIndexOf ?flds (getName (fst x)) = int k))"
  proof (intro allI impI)
    fix k assume k: "k < ?n"
    with full have ne: "\<not> empty (res' ! k)" by blast
    with k have "res' ! k \<noteq> replicate ?n Empty ! k" by auto
    with slots k ne show "\<not> empty (res' ! k)
           \<and> (\<exists>x \<in> set (zip (snd ?inis) (subexprs init)). \<exists>es es'.
                 checkInitialiser I (symbol_getType (snd ?flds ! k)) (snd x) es
                   = (Initialised (res' ! k), es')
               \<and> (getName (fst x) \<noteq> [] \<longrightarrow> getIndexOf ?flds (getName (fst x)) = int k))"
      by blast
  qed
  with r len show ?thesis by (simp add: createNary_def)
qed

lemma evaluate_range_Some_nonempty:
  "evaluate_range I r = Some rng \<Longrightarrow> \<not> empty (fst r)"
  by (auto simp: evaluate_range_def evaluate_def split: option.splits if_splits)

text \<open>
  C8. For an initialiser of value type and a declared type of base Int: when both the
  initialiser and the declared range evaluate under the valuation, the out-of-range error
  is raised if and only if the value lies outside the range, and otherwise the initialiser
  is returned as it is; when either evaluation is not computable, the initialiser is
  returned as it is and no error is raised.
\<close>

theorem int_initialiser_range_check:
  assumes T: "getBase ty = INT_T" and V: "isValue init"
  shows "(evaluate I init = Some n \<and> evaluate_range I (getRange ty) = Some rng \<longrightarrow>
            ((checkInitialiser I ty init errs
                = (InitialiserException init ''Initialiser is out of range'', errs))
               \<longleftrightarrow> \<not> range_contains_value rng n)
          \<and> (range_contains_value rng n \<longrightarrow>
                checkInitialiser I ty init errs = (Initialised init, errs)))
       \<and> (evaluate I init = None \<or> evaluate_range I (getRange ty) = None \<longrightarrow>
            checkInitialiser I ty init errs = (Initialised init, errs))"
proof (intro conjI impI)
  assume a: "evaluate I init = Some n \<and> evaluate_range I (getRange ty) = Some rng"
  then have ne: "\<not> empty (fst (getRange ty))" by (auto dest: evaluate_range_Some_nonempty)
  show "(checkInitialiser I ty init errs
                = (InitialiserException init ''Initialiser is out of range'', errs))
               \<longleftrightarrow> \<not> range_contains_value rng n"
    using T V a ne by (simp add: checkInitialiser.simps)
  show "checkInitialiser I ty init errs = (Initialised init, errs)" if "range_contains_value rng n"
    using T V a ne that by (simp add: checkInitialiser.simps)
next
  assume "evaluate I init = None \<or> evaluate_range I (getRange ty) = None"
  then show "checkInitialiser I ty init errs = (Initialised init, errs)"
    using T V by (auto simp: checkInitialiser.simps split: option.splits)
qed

lemma constant_evaluates:
  "evaluate constInterpreter (createConstant p n) = Some (word_of_int n)"
  by (simp add: evaluate_def constInterpreter_def createConstant_def)

lemma constant_range_evaluates:
  "evaluate_range constInterpreter (createConstant p lo, createConstant q hi)
     = Some (Range (word_of_int lo) (word_of_int hi))"
  by (simp add: evaluate_range_def constant_evaluates)

lemma intType_range_evaluates:
  "evaluate_range constInterpreter (getRange (intType lo hi))
     = Some (Range (word_of_int lo) (word_of_int hi))"
  by (simp add: evaluate_range_def intType_def createInteger_def constant_evaluates)

theorem int_initialiser_range_check_witness:
  "getBase (intType 0 3) = INT_T \<and> isValue (createConstant 1 5)
   \<and> evaluate constInterpreter (createConstant 1 5) = Some 5
   \<and> evaluate_range constInterpreter (getRange (intType 0 3)) = Some (Range 0 3)
   \<and> \<not> range_contains_value (Range 0 3) 5
   \<and> checkInitialiser constInterpreter (intType 0 3) (createConstant 1 5) []
       = (InitialiserException (createConstant 1 5) ''Initialiser is out of range'', [])
   \<and> evaluate noInterpreter (createConstant 1 5) = None
   \<and> checkInitialiser noInterpreter (intType 0 3) (createConstant 1 5) []
       = (Initialised (createConstant 1 5), [])"
proof -
  have T: "getBase (intType 0 3) = INT_T" by (simp add: intType_def createInteger_def)
  have V: "isValue (createConstant 1 5)"
    by (simp add: isValue_def type_isValue_def createConstant_def prim_def)
  have n: "evaluate constInterpreter (createConstant 1 5) = Some 5"
    by (simp add: constant_evaluates)
  have r: "evaluate_range constInterpreter (getRange (intType 0 3)) = Some (Range 0 3)"
    by (simp add: intType_range_evaluates)
  have c: "\<not> range_contains_value (Range 0 3) 5" by simp
  have u: "evaluate noInterpreter (createConstant 1 5) = None"
    by (simp add: evaluate_def noInterpreter_def)
  from int_initialiser_range_check [OF T V, of constInterpreter 5 "Range 0 3" "[]"] n r c
  have 1: "checkInitialiser constInterpreter (intType 0 3) (createConstant 1 5) []
       = (InitialiserException (createConstant 1 5) ''Initialiser is out of range'', [])"
    by simp
  from int_initialiser_range_check [OF T V, of noInterpreter 5 "Range 0 3" "[]"] u
  have 2: "checkInitialiser noInterpreter (intType 0 3) (createConstant 1 5) []
       = (Initialised (createConstant 1 5), [])"
    by simp
  from T V n r c u 1 2 show ?thesis by simp
qed

lemma intType_simps:
  "getBase (intType lo hi) = INT_T"
  "getRange (intType lo hi) = (createConstant 0 lo, createConstant 0 hi)"
  "type_isInteger (intType lo hi)"
  by (simp_all add: intType_def createInteger_def type_isInteger_def)

lemma intType_leaf:
  assumes n: "0 \<le> n" "n \<le> 3"
  shows "checkInitialiser constInterpreter (intType 0 3) (createConstant p n) es
           = (Initialised (createConstant p n), es)"
proof -
  have V: "isValue (createConstant p n)"
    by (simp add: isValue_def type_isValue_def createConstant_def prim_def)
  have E: "\<not> empty (createConstant 0 0)" by (simp add: createConstant_def)
  have "sint (word_of_int n :: 32 word) = n"
    using n by (simp add: signed_of_int signed_take_bit_int_eq_self)
  then have "range_contains_value (Range (word_of_int 0) (word_of_int 3)) (word_of_int n)"
    using n by simp
  with V E show ?thesis
    by (simp add: checkInitialiser.simps [of constInterpreter "intType 0 3" "createConstant p n" es]
        intType_simps constant_evaluates constant_range_evaluates)
qed

lemma recordList_checked:
  "checkInitialiser constInterpreter recordType recordList []
     = (Initialised (createNary 3 LIST [createConstant 5 1, createConstant 4 2] recordType), [])"
  apply (simp add: checkInitialiser.simps [of constInterpreter recordType recordList "[]"])
  apply (simp add: recordType_def recordList_def getRecordFields_def frame_eq_def frame_getSize_def
      recordStep_def recordTarget_def getIndexOf_def intType_leaf Let_def prim_def)
  apply (simp add: less_Suc_eq createConstant_def)
  done

lemma arrayList_checked:
  "checkInitialiser constInterpreter arrayType arrayList []
     = (Initialised (createNary 3 LIST [createConstant 4 2, createConstant 5 1] arrayType), [])"
  by (simp add: checkInitialiser.simps [of constInterpreter arrayType arrayList "[]"])
     (simp add: arrayType_def arrayList_def getRecordFields_def frame_getSize_def
      arrayStep_def intType_leaf Let_def prim_def intType_simps constant_evaluates)

text \<open>
  C3 (as amended). Whenever \<open>checkInitialiser\<close> returns an initialiser without raising:
  for a declared array type, the result is a list of the declared type with exactly
  \<open>upper - lower + 1\<close> entries (the dimension as the source computes it), the given
  initialiser had as many, and every entry was positional (its name is empty); for a
  declared record type, either the initialiser was already an expression of the identical
  record type and is returned unchanged, or the result is a list of the declared type with
  one non-empty entry for every declared field, in declaration order, the entry of field
  \<open>k\<close> being the checked form (against the type of field \<open>k\<close>) of an initialiser
  that was positional or named after field \<open>k\<close>.
\<close>

theorem checkInitialiser_normal_form:
  assumes ok: "checkInitialiser I ty init errs = (Initialised r, errs')"
  shows "(getBase ty = ARRAY_T \<longrightarrow>
            (\<exists>lower upper.
               evaluate I (fst (getRange (getArraySize ty))) = Some lower
             \<and> evaluate I (snd (getRange (getArraySize ty))) = Some upper
             \<and> getKind r = Some LIST \<and> getType r = ty
             \<and> getSize r = unat (upper - lower + 1)
             \<and> getSize init = unat (upper - lower + 1)
             \<and> (\<forall>f \<in> set (snd (getRecordFields (getType init))). getName f = [])))
       \<and> (getBase ty = RECORD \<longrightarrow>
            (r = init \<and> getBase (getType init) = RECORD
               \<and> frame_eq (getRecordFields ty) (getRecordFields (getType init)))
          \<or> (getKind r = Some LIST \<and> getType r = ty
             \<and> getSize r = frame_getSize (getRecordFields ty)
             \<and> (\<forall>k < frame_getSize (getRecordFields ty).
                   \<not> empty (subexprs r ! k)
                 \<and> (\<exists>x \<in> set (zip (snd (getRecordFields (getType init))) (subexprs init)).
                      \<exists>es es'.
                        checkInitialiser I (symbol_getType (snd (getRecordFields ty) ! k))
                            (snd x) es
                          = (Initialised (subexprs r ! k), es')
                      \<and> (getName (fst x) \<noteq> [] \<longrightarrow>
                           getIndexOf (getRecordFields ty) (getName (fst x)) = int k)))))"
proof (intro conjI impI)
  assume "getBase ty = ARRAY_T"
  with ok show "\<exists>lower upper.
               evaluate I (fst (getRange (getArraySize ty))) = Some lower
             \<and> evaluate I (snd (getRange (getArraySize ty))) = Some upper
             \<and> getKind r = Some LIST \<and> getType r = ty
             \<and> getSize r = unat (upper - lower + 1)
             \<and> getSize init = unat (upper - lower + 1)
             \<and> (\<forall>f \<in> set (snd (getRecordFields (getType init))). getName f = [])"
    by (rule array_initialiser_shape)
next
  assume rec: "getBase ty = RECORD"
  show "(r = init \<and> getBase (getType init) = RECORD
               \<and> frame_eq (getRecordFields ty) (getRecordFields (getType init)))
          \<or> (getKind r = Some LIST \<and> getType r = ty
             \<and> getSize r = frame_getSize (getRecordFields ty)
             \<and> (\<forall>k < frame_getSize (getRecordFields ty).
                   \<not> empty (subexprs r ! k)
                 \<and> (\<exists>x \<in> set (zip (snd (getRecordFields (getType init))) (subexprs init)).
                      \<exists>es es'.
                        checkInitialiser I (symbol_getType (snd (getRecordFields ty) ! k))
                            (snd x) es
                          = (Initialised (subexprs r ! k), es')
                      \<and> (getName (fst x) \<noteq> [] \<longrightarrow>
                           getIndexOf (getRecordFields ty) (getName (fst x)) = int k))))"
  proof (cases "getBase (getType init) = RECORD
                \<and> frame_eq (getRecordFields ty) (getRecordFields (getType init))")
    case True
    with ok rec have "r = init" by (simp add: checkInitialiser.simps [of I ty init errs])
    with True show ?thesis by simp
  next
    case False
    from record_initialiser_shape [OF ok rec False] show ?thesis by (rule disjI2)
  qed
qed

theorem checkInitialiser_normal_form_witness:
  "checkInitialiser constInterpreter recordType recordList []
     = (Initialised (createNary 3 LIST [createConstant 5 1, createConstant 4 2] recordType), [])
   \<and> getBase recordType = RECORD
   \<and> getSize (createNary 3 LIST [createConstant 5 1, createConstant 4 2] recordType)
       = frame_getSize (getRecordFields recordType)
   \<and> getIndexOf (getRecordFields recordType) ''b'' = 1
   \<and> checkInitialiser constInterpreter arrayType arrayList []
     = (Initialised (createNary 3 LIST [createConstant 4 2, createConstant 5 1] arrayType), [])
   \<and> getBase arrayType = ARRAY_T
   \<and> getSize (createNary 3 LIST [createConstant 4 2, createConstant 5 1] arrayType) = 2"
proof -
  have b: "getIndexOf (getRecordFields recordType) ''b'' = 1"
    by (simp add: getIndexOf_def getRecordFields_def recordType_def)
  from checkInitialiser_normal_form [OF recordList_checked]
       checkInitialiser_normal_form [OF arrayList_checked]
       recordList_checked arrayList_checked b
  show ?thesis
    by (simp add: recordType_def arrayType_def createNary_def getRecordFields_def
        frame_getSize_def)
qed

text \<open>
  The claim C3 as stated fails for a record-typed initialiser that is not a list: the
  identifier \<open>s\<close> of the declared record type is returned as it is, and it is no list
  with an entry for each of the two declared fields.
\<close>

theorem record_initialiser_passthrough_counterexample:
  "checkInitialiser noInterpreter recordType recordId [] = (Initialised recordId, [])
   \<and> getBase recordType = RECORD
   \<and> getKind recordId = Some IDENTIFIER
   \<and> getSize recordId = 0
   \<and> frame_getSize (getRecordFields recordType) = 2"
  by (simp add: checkInitialiser.simps [of noInterpreter recordType recordId "[]"])
     (simp add: recordType_def recordId_def getRecordFields_def frame_eq_def frame_getSize_def)

subsection \<open>The annotator\<close>

lemma prim_simps:
  "getBase (prim b) = b" "hasPrefix (prim b) q = False" "getRange (prim b) = (Empty, Empty)"
  "getFrame (prim b) = (0, [])" "getSub (prim b) = prim UNKNOWN"
  "getArraySize (prim b) = prim UNKNOWN"
  by (simp_all add: prim_def)

lemma varId_simps:
  "getType (varId n ty) = ty" "getSymbol (varId n ty) = Some (Symbol n ty)"
  "getKind (varId n ty) = Some IDENTIFIER" "isLHSValue (varId n ty) = (\<not> hasPrefix ty CONSTANT_P)"
  "changesVariable P (varId n ty) = False"
  by (simp_all add: varId_def)

lemma annotate_leaf:
  "arity k = 0 \<Longrightarrow> k \<noteq> FUNCALL \<Longrightarrow> k \<noteq> FORALL \<Longrightarrow>
   annotateSwitch I (Expr k p t v s []) k [] errs = (ReturnTrue, errs) \<Longrightarrow>
   annotate I P (Expr k p t v s []) errs = Some ((True, Expr k p t v s []), errs)"
  by (simp add: annotate.simps annotateAll.simps)

lemma annotate_varId: "annotate I P (varId n ty) errs = Some ((True, varId n ty), errs)"
  by (simp add: varId_def annotate.simps annotateAll.simps arity_def annotateSwitch_def)

lemma annotate_constant:
  "annotate I P (createConstant p n) errs = Some ((True, createConstant p n), errs)"
  by (simp add: createConstant_def annotate.simps annotateAll.simps arity_def annotateSwitch_def)

lemma annotateAll_two:
  "annotate I P a errs = Some ((True, a'), errs) \<Longrightarrow> annotate I P b errs = Some ((True, b'), errs)
   \<Longrightarrow> annotateAll I P [a, b] errs = Some ((True, [a', b']), errs)"
  by (simp add: annotateAll.simps)

lemma annotate_node:
  assumes "annotateAll I P es errs = Some ((True, es'), errs1)"
    and "\<not> length es' < arity k" and "k \<noteq> FUNCALL" and "k \<noteq> FORALL"
  shows "annotate I P (Expr k p t v s es) errs =
           (case annotateSwitch I (Expr k p t v s es') k es' errs1 of
              (ReturnFalse, errs2) \<Rightarrow> Some ((False, Expr k p t v s es'), errs2)
            | (ReturnTrue, errs2) \<Rightarrow> Some ((True, Expr k p t v s es'), errs2)
            | (SetType type, errs2) \<Rightarrow> Some ((True, Expr k p type v s es'), errs2))"
  using assms by (simp add: annotate.simps(2) Let_def split: prod.splits verdict_t.splits)

lemma annotate_forall:
  assumes "annotateAll I P (bound # rest) errs = Some ((True, es'), errs1)"
    and "\<not> length es' < arity FORALL"
    and "getSymbol bound = Some sy"
    and "checkType I P (symbol_getType sy) False errs1 = Some errs2"
  shows "annotate I P (Expr FORALL p t v s (bound # rest)) errs =
           Some ((True, Expr FORALL p (fst (forallType (es' ! 1) errs2)) v s es'),
                 if \<not> isSideEffectFree P (es' ! 1) then
                   handleError (es' ! 1) ''Expression must be side effect free''
                     (snd (forallType (es' ! 1) errs2))
                 else snd (forallType (es' ! 1) errs2))"
  using assms by (simp add: annotate.simps(2) Let_def)

text \<open>
  C1. The claim is that \<open>annotate\<close> returns false whenever it reports an ill-typed
  combination. The source does not do so in two cases: for \<open>x += 1\<close> with a clock
  \<open>x\<close> it reports the error of the increment operator, goes on to set the type of the
  left operand and returns true; for a \<open>forall\<close> whose body is a clock it reports
  ``Boolean expected'', leaves the unknown type and returns true.
\<close>

theorem annotate_error_returns_true:
  "annotate noInterpreter {} clockPlusAssign []
     = Some ((True, setType clockPlusAssign (prim CLOCK)),
             [(clockPlusAssign,
               ''Increment operator can only be used for integer and cost variables.'')])
   \<and> annotate noInterpreter {} forallClock []
     = Some ((True, forallClock), [(varId ''x'' (prim CLOCK), ''Boolean expected'')])"
proof -
  let ?x = "varId ''x'' (prim CLOCK)"
  have sub1: "annotateAll noInterpreter {} [?x, createConstant 3 1] []
     = Some ((True, [?x, createConstant 3 1]), [])"
    by (simp add: annotateAll_two annotate_varId annotate_constant)
  have t1: "getType ?x = prim CLOCK" by (simp add: varId_def)
  have nint: "\<not> isInteger ?x" "\<not> isCost ?x"
    by (simp_all add: isInteger_def isCost_def type_isInteger_def prim_simps varId_simps)
  have sw: "annotateSwitch noInterpreter clockPlusAssign ASSPLUS [?x, createConstant 3 1] []
      = (SetType (prim CLOCK),
         [(clockPlusAssign,
           ''Increment operator can only be used for integer and cost variables.'')])"
    using nint by (simp add: annotateSwitch_def t1 handleError_def)
  have a: "annotate noInterpreter {} clockPlusAssign []
     = Some ((True, setType clockPlusAssign (prim CLOCK)),
             [(clockPlusAssign,
               ''Increment operator can only be used for integer and cost variables.'')])"
    using annotate_node [OF sub1, of ASSPLUS 2 "prim UNKNOWN" 0 None] sw
    by (simp add: clockPlusAssign_def arity_def)
  have sub2: "annotateAll noInterpreter {} [varId ''i'' (intType 0 3), ?x] []
     = Some ((True, [varId ''i'' (intType 0 3), ?x]), [])"
    by (simp add: annotateAll_two annotate_varId)
  have ci: "isInteger (createConstant 0 n)" for n
    by (simp add: createConstant_def isInteger_def type_isInteger_def prim_def)
  have ne: "\<not> empty (createConstant 0 n)" for n by (simp add: createConstant_def)
  have nd: "\<not> dependsOn {} (createConstant 0 n)" for n by (simp add: createConstant_def)
  have ct: "checkType noInterpreter {} (intType 0 3) False [] = Some []"
    by (simp add: intType_def createInteger_def checkType.simps annotate_constant
        expectConstantInteger_def checkRangeOrder_def evaluate_def noInterpreter_def ci ne nd)
  have sy: "getSymbol (varId ''i'' (intType 0 3)) = Some (Symbol ''i'' (intType 0 3))"
    by (simp add: varId_def)
  have body: "forallType ?x [] = (prim UNKNOWN, [(?x, ''Boolean expected'')])"
    by (simp add: forallType_def t1 isValue_def isInvariant_def isGuard_def isConstraint_def
        type_isValue_def type_isInvariant_def type_isGuard_def type_isConstraint_def
        handleError_def prim_simps)
  have sef: "isSideEffectFree {} ?x"
    by (simp add: isSideEffectFree_def varId_def isUpdate_def)
  have ct': "checkType noInterpreter {} (symbol_getType (Symbol ''i'' (intType 0 3))) False []
               = Some []"
    using ct by simp
  have b: "annotate noInterpreter {} forallClock []
     = Some ((True, forallClock), [(?x, ''Boolean expected'')])"
    using annotate_forall [OF sub2 _ sy ct', of 2 "prim UNKNOWN" 0 None] body sef
    by (simp add: forallClock_def arity_def)
  from a b show ?thesis by simp
qed

text \<open>
  C5 (as amended). For a compound assignment other than \<open>+=\<close> whose operands, once
  annotated, are both values and whose left operand is a left-hand side value, \<open>annotate\<close>
  returns true, reports nothing and gives the expression the type of its left operand,
  which is a value type (Int or Bool).
\<close>

theorem compound_assignment_type_of_left:
  assumes k: "k \<in> {ASSMINUS, ASSDIV, ASSMOD, ASSMULT, ASSAND, ASSOR, ASSXOR, ASSLSHIFT, ASSRSHIFT}"
    and subs: "annotateAll I P es errs = Some ((True, es'), errs1)"
    and n: "2 \<le> length es'"
    and vals: "isValue (es' ! 0)" "isValue (es' ! 1)"
    and lhs: "isLHSValue (es' ! 0)"
  shows "annotate I P (Expr k p t v s es) errs
           = Some ((True, Expr k p (getType (es' ! 0)) v s es'), errs1)
       \<and> type_isValue (getType (es' ! 0))"
proof -
  from k have ar: "arity k = 2" by (auto simp: arity_def)
  from k have sw: "annotateSwitch I (Expr k p t v s es') k es' errs1
                     = (SetType (getType (es' ! 0)), errs1)"
    using vals lhs by (auto simp: annotateSwitch_def)
  from k have nf: "k \<noteq> FUNCALL" "k \<noteq> FORALL" by auto
  from n ar have "\<not> length es' < arity k" by simp
  from annotate_node [OF subs this nf] sw vals show ?thesis
    by (simp add: isValue_def)
qed

text \<open>
  The claim C5 as stated, that the type is Int, fails for a left operand of type Bool:
  \<open>b -= 1\<close> with a Boolean variable \<open>b\<close> gets the type Bool.
\<close>

theorem compound_assignment_bool_counterexample:
  "annotate noInterpreter {} boolMinusAssign [] = Some ((True, setType boolMinusAssign (prim BOOL)), [])
   \<and> isValue (varId ''b'' (prim BOOL)) \<and> isValue (createConstant 3 1)
   \<and> isLHSValue (varId ''b'' (prim BOOL))
   \<and> getType (setType boolMinusAssign (prim BOOL)) \<noteq> prim INT_T
   \<and> getBase (getType (setType boolMinusAssign (prim BOOL))) = BOOL"
proof -
  have sub: "annotateAll noInterpreter {} [varId ''b'' (prim BOOL), createConstant 3 1] []
     = Some ((True, [varId ''b'' (prim BOOL), createConstant 3 1]), [])"
    by (simp add: annotateAll_two annotate_varId annotate_constant)
  have v1: "isValue (varId ''b'' (prim BOOL))"
    by (simp add: varId_def isValue_def type_isValue_def prim_def)
  have v2: "isValue (createConstant 3 1)"
    by (simp add: createConstant_def isValue_def type_isValue_def prim_def)
  have l: "isLHSValue (varId ''b'' (prim BOOL))" by (simp add: varId_def prim_def)
  have t: "getType (varId ''b'' (prim BOOL)) = prim BOOL" by (simp add: varId_def)
  have sw: "annotateSwitch noInterpreter boolMinusAssign ASSMINUS
              [varId ''b'' (prim BOOL), createConstant 3 1] []
            = (SetType (prim BOOL), [])"
    using v1 v2 l by (simp add: annotateSwitch_def t)
  have a: "annotate noInterpreter {} boolMinusAssign []
             = Some ((True, setType boolMinusAssign (prim BOOL)), [])"
    using annotate_node [OF sub, of ASSMINUS 2 "prim UNKNOWN" 0 None] sw
    by (simp add: boolMinusAssign_def arity_def)
  from a v1 v2 l show ?thesis by (simp add: boolMinusAssign_def prim_def)
qed

theorem compound_assignment_type_of_left_witness:
  "annotateAll noInterpreter {} [varId ''b'' (prim BOOL), createConstant 3 1] []
     = Some ((True, [varId ''b'' (prim BOOL), createConstant 3 1]), [])
   \<and> annotate noInterpreter {}
        (Expr ASSMULT 2 (prim UNKNOWN) 0 None [varId ''b'' (prim BOOL), createConstant 3 1]) []
     = Some ((True, Expr ASSMULT 2 (prim BOOL) 0 None
                      [varId ''b'' (prim BOOL), createConstant 3 1]), [])"
proof -
  have sub: "annotateAll noInterpreter {} [varId ''b'' (prim BOOL), createConstant 3 1] []
     = Some ((True, [varId ''b'' (prim BOOL), createConstant 3 1]), [])"
    by (simp add: annotateAll_two annotate_varId annotate_constant)
  have v1: "isValue ([varId ''b'' (prim BOOL), createConstant 3 1] ! 0)"
    by (simp add: varId_def isValue_def type_isValue_def prim_def)
  have v2: "isValue ([varId ''b'' (prim BOOL), createConstant 3 1] ! 1)"
    by (simp add: createConstant_def isValue_def type_isValue_def prim_def)
  have l: "isLHSValue ([varId ''b'' (prim BOOL), createConstant 3 1] ! 0)"
    by (simp add: varId_def prim_def)
  have k: "ASSMULT \<in> {ASSMINUS, ASSDIV, ASSMOD, ASSMULT, ASSAND, ASSOR, ASSXOR, ASSLSHIFT, ASSRSHIFT}"
    by simp
  have n: "2 \<le> length [varId ''b'' (prim BOOL), createConstant 3 1]" by simp
  from compound_assignment_type_of_left [OF k sub n v1 v2 l, of 2 "prim UNKNOWN" 0 None] sub
  show ?thesis by (simp add: varId_def)
qed

text \<open>
  C6. The claim is that for two arrays with integer sizes the size ranges of the two arrays
  are compared. The source compares the size range of the \<open>then\<close> array with the range
  of the \<open>else\<close> array type itself: two branches of one and the same array type, with
  syntactically equal size bounds and compatible elements, are not inline-if compatible.
\<close>

theorem inline_if_array_size_compared_with_else_type:
  "areInlineIfCompatible arrayType arrayType = False
   \<and> equal (fst (getRange (getArraySize arrayType))) (fst (getRange (getArraySize arrayType)))
   \<and> equal (snd (getRange (getArraySize arrayType))) (snd (getRange (getArraySize arrayType)))
   \<and> areInlineIfCompatible (getSub arrayType) (getSub arrayType)
   \<and> getRange arrayType = (Empty, Empty)"
proof -
  have a: "areInlineIfCompatible arrayType arrayType = False"
    by (simp add: areInlineIfCompatible.simps [of arrayType arrayType])
       (simp add: arrayType_def intType_simps type_isValue_def type_isClock_def
        createConstant_def)
  have b: "areInlineIfCompatible (intType 0 3) (intType 0 3)"
    by (simp add: areInlineIfCompatible.simps [of "intType 0 3" "intType 0 3"] intType_simps
        type_isValue_def)
  from a b show ?thesis
    by (simp add: arrayType_def intType_simps createConstant_def)
qed

subsection \<open>Invariants, rates and edges\<close>

lemma isRateApplication_eq:
  "isRateApplication a \<Longrightarrow> \<exists>p t c. a = Expr RATE p t 0 None [c]"
  by (cases a rule: isRateApplication.cases) auto

lemma denote_rate_application:
  "isRateApplication a \<Longrightarrow> get a 0 = Some c \<Longrightarrow> denote f u a = denote f u (rateOf c)"
  by (auto dest!: isRateApplication_eq simp: get_def rateOf_def createUnary_def)






lemma prim_eq_iff: "(prim a = prim b) = (a = b)"
  by (simp add: prim_def)

lemma constant_simps:
  "getType (createConstant p n) = prim INT_T" "getKind (createConstant p n) = Some CONSTANT"
  "getValue (createConstant p n) = n" "changesVariable P (createConstant p n) = False"
  "empty (createConstant p n) = False"
  by (simp_all add: createConstant_def)

lemma costId_simps:
  "getType costId = prim COST" "isRateApplication (Expr RATE p t 0 None [costId])"
  by (simp_all add: costId_def varId_simps)

lemma clockId_simps: "getType clockId = prim CLOCK"
  by (simp add: clockId_def varId_simps)

lemma annotate_costId: "annotate I P costId errs = Some ((True, costId), errs)"
  by (simp add: costId_def annotate_varId)

lemma annotate_clockId: "annotate I P clockId errs = Some ((True, clockId), errs)"
  by (simp add: clockId_def annotate_varId)

lemma annotateAll_one:
  "annotate I P a errs = Some ((True, a'), errs) \<Longrightarrow>
   annotateAll I P [a] errs = Some ((True, [a']), errs)"
  by (simp add: annotateAll.simps)

lemma annotate_rate:
  "annotate I P (Expr RATE 4 (prim UNKNOWN) 0 None [costId]) errs
     = Some ((True, Expr RATE 4 (prim RATE_T) 0 None [costId]), errs)"
proof -
  have sub: "annotateAll I P [costId] errs = Some ((True, [costId]), errs)"
    by (simp add: annotateAll_one annotate_costId)
  have sw: "annotateSwitch I (Expr RATE 4 (prim UNKNOWN) 0 None [costId]) RATE [costId] errs
              = (SetType (prim RATE_T), errs)"
    by (simp add: annotateSwitch_def isCost_def costId_simps prim_simps)
  from annotate_node [OF sub, of RATE 4 "prim UNKNOWN" 0 None] sw show ?thesis
    by (simp add: arity_def)
qed

lemma annotate_rateEquality:
  "annotate I P (rateEquality (prim UNKNOWN) (prim UNKNOWN)) errs
     = Some ((True, rateEquality (prim RATE_T) (prim INVARIANT_WR)), errs)"
proof -
  let ?r = "Expr RATE 4 (prim RATE_T) 0 None [costId]"
  have sub: "annotateAll I P [Expr RATE 4 (prim UNKNOWN) 0 None [costId], createConstant 6 2] errs
               = Some ((True, [?r, createConstant 6 2]), errs)"
    by (simp add: annotateAll_two annotate_rate annotate_constant)
  have ty: "typeOfBinaryNonInt ?r EQ (createConstant 6 2) = prim INVARIANT_WR"
    by (simp add: typeOfBinaryNonInt_def isClock_def isInteger_def isDiff_def type_isClock_def
        type_isInteger_def type_isDiff_def prim_simps createConstant_def)
  have sw: "annotateSwitch I (Expr EQ 5 (prim UNKNOWN) 0 None [?r, createConstant 6 2]) EQ
              [?r, createConstant 6 2] errs
              = (SetType (prim INVARIANT_WR), errs)"
    by (simp add: annotateSwitch_def binaryNonInt_def Let_def ty isValue_def isRecord_def
        type_isValue_def type_isRecord_def prim_simps prim_eq_iff constant_simps)
  from annotate_node [OF sub, of EQ 5 "prim UNKNOWN" 0 None] sw show ?thesis
    by (simp add: arity_def rateEquality_def)
qed

lemma annotate_clockBound:
  "annotate I P (clockBound (prim UNKNOWN)) errs = Some ((True, clockBound (prim INVARIANT)), errs)"
proof -
  have sub: "annotateAll I P [clockId, createConstant 8 10] errs
               = Some ((True, [clockId, createConstant 8 10]), errs)"
    by (simp add: annotateAll_two annotate_clockId annotate_constant)
  have ty: "typeOfBinaryNonInt clockId LE (createConstant 8 10) = prim INVARIANT"
    by (simp add: typeOfBinaryNonInt_def isClock_def isInteger_def isDiff_def type_isClock_def
        type_isInteger_def type_isDiff_def prim_simps constant_simps clockId_simps)
  have sw: "annotateSwitch I (Expr LE 7 (prim UNKNOWN) 0 None [clockId, createConstant 8 10]) LE
              [clockId, createConstant 8 10] errs
              = (SetType (prim INVARIANT), errs)"
    by (simp add: annotateSwitch_def binaryNonInt_def Let_def ty isValue_def type_isValue_def
        prim_simps prim_eq_iff constant_simps clockId_simps)
  from annotate_node [OF sub, of LE 7 "prim UNKNOWN" 0 None] sw show ?thesis
    by (simp add: arity_def clockBound_def)
qed

lemma annotate_boundAndRate:
  "annotate I P (boundAndRate (prim UNKNOWN) (prim UNKNOWN) (prim UNKNOWN) (prim UNKNOWN)) errs
     = Some ((True, boundAndRate (prim RATE_T) (prim INVARIANT_WR) (prim INVARIANT)
                      (prim INVARIANT_WR)), errs)"
proof -
  let ?a = "clockBound (prim INVARIANT)"
  let ?b = "rateEquality (prim RATE_T) (prim INVARIANT_WR)"
  have sub: "annotateAll I P [clockBound (prim UNKNOWN), rateEquality (prim UNKNOWN) (prim UNKNOWN)]
               errs = Some ((True, [?a, ?b]), errs)"
    by (simp add: annotateAll_two annotate_clockBound annotate_rateEquality)
  have ta: "getType ?a = prim INVARIANT" by (simp add: clockBound_def)
  have tb: "getType ?b = prim INVARIANT_WR" by (simp add: rateEquality_def)
  have ty: "typeOfBinaryNonInt ?a AND ?b = prim INVARIANT_WR"
    by (simp add: typeOfBinaryNonInt_def isInvariant_def isInvariantWR_def type_isInvariant_def
        type_isValue_def ta tb prim_simps)
  have sw: "annotateSwitch I (Expr AND 9 (prim UNKNOWN) 0 None [?a, ?b]) AND [?a, ?b] errs
              = (SetType (prim INVARIANT_WR), errs)"
    by (simp add: annotateSwitch_def binaryNonInt_def Let_def ty isValue_def type_isValue_def
        ta tb prim_simps prim_eq_iff)
  from annotate_node [OF sub, of AND 9 "prim UNKNOWN" 0 None] sw show ?thesis
    by (simp add: arity_def boundAndRate_def)
qed

lemma chanType_simps:
  "getBase (chanType ps) = CHANNEL" "hasPrefix (chanType ps) q = (q \<in> ps)"
  by (simp_all add: chanType_def)

text \<open>
  C7 (as amended). For an edge whose non-empty synchronisation annotates without error, is
  over a channel and is side-effect free, the channel being urgent, or broadcast with the
  direction \<open>?\<close>: the synchronisation check reports an error if and only if the edge has
  a non-empty guard that is not a plain value, and the error is the one for urgent edges
  when the channel is urgent and the one for broadcast receivers otherwise.
\<close>

theorem sync_clock_guard_errors:
  assumes ne: "\<not> empty (sync edge)"
    and an: "annotate I P (sync edge) errs = Some ((True, sy), errs1)"
    and hd: "get sy 0 = Some head"
    and ch: "getBase (getType head) = CHANNEL"
    and sef: "isSideEffectFree P sy"
    and kind: "hasPrefix (getType head) URGENT
               \<or> (hasPrefix (getType head) BROADCAST \<and> getSync sy = SYNC_QUE)"
  shows "visitEdge_sync I P edge errs =
           Some (edge\<lparr>sync := sy\<rparr>,
                 if \<not> empty (guard edge) \<and> \<not> isValue (guard edge) then
                   handleError sy
                     (if hasPrefix (getType head) URGENT
                      then ''Clock guards are not allowed on urgent edges''
                      else ''Clock guards are not allowed on broadcast receivers'') errs1
                 else errs1)"
  using assms by (auto simp: visitEdge_sync_def Let_def)

lemma annotate_sendUrgent: "annotate I P sendUrgent errs = Some ((True, sendUrgent), errs)"
proof -
  have c: "annotate I P (chanId {URGENT}) errs = Some ((True, chanId {URGENT}), errs)"
    by (simp add: chanId_def annotate.simps annotateAll.simps arity_def annotateSwitch_def)
  have sub: "annotateAll I P [chanId {URGENT}] errs = Some ((True, [chanId {URGENT}]), errs)"
    using c by (rule annotateAll_one)
  have sw: "annotateSwitch I sendUrgent SYNC [chanId {URGENT}] errs = (ReturnTrue, errs)"
    by (simp add: annotateSwitch_def)
  from annotate_node [OF sub, of SYNC 4 "prim UNKNOWN" 1 None] sw show ?thesis
    by (simp add: arity_def sendUrgent_def)
qed

theorem sync_clock_guard_errors_witness:
  "\<not> empty (sync (edgeWith (clockBound (prim INVARIANT)) sendUrgent))
   \<and> annotate noInterpreter {} sendUrgent [] = Some ((True, sendUrgent), [])
   \<and> get sendUrgent 0 = Some (chanId {URGENT})
   \<and> getBase (getType (chanId {URGENT})) = CHANNEL
   \<and> isSideEffectFree {} sendUrgent
   \<and> hasPrefix (getType (chanId {URGENT})) URGENT
   \<and> \<not> isValue (clockBound (prim INVARIANT))
   \<and> visitEdge_sync noInterpreter {} (edgeWith (clockBound (prim INVARIANT)) sendUrgent) []
       = Some (edgeWith (clockBound (prim INVARIANT)) sendUrgent,
               [(sendUrgent, ''Clock guards are not allowed on urgent edges'')])
   \<and> visitEdge_sync noInterpreter {} (edgeWith Empty sendUrgent) []
       = Some (edgeWith Empty sendUrgent, [])"
proof -
  have ne: "\<not> empty (sync (edgeWith g sendUrgent))" for g
    by (simp add: edgeWith_def sendUrgent_def)
  have an: "annotate noInterpreter {} (sync (edgeWith g sendUrgent)) []
              = Some ((True, sendUrgent), [])" for g
    by (simp add: edgeWith_def annotate_sendUrgent)
  have hd: "get sendUrgent 0 = Some (chanId {URGENT})" by (simp add: get_def sendUrgent_def)
  have ch: "getBase (getType (chanId {URGENT})) = CHANNEL" by (simp add: chanId_def chanType_def)
  have sef: "isSideEffectFree {} sendUrgent"
    by (simp add: isSideEffectFree_def sendUrgent_def chanId_def isUpdate_def)
  have ur: "hasPrefix (getType (chanId {URGENT})) URGENT" by (simp add: chanId_def chanType_def)
  have nv: "\<not> isValue (clockBound (prim INVARIANT))"
    by (simp add: clockBound_def isValue_def type_isValue_def prim_simps)
  have g: "\<not> empty (clockBound (prim INVARIANT))" by (simp add: clockBound_def)
  from sync_clock_guard_errors [OF ne an hd ch sef disjI1 [OF ur], of "clockBound (prim INVARIANT)"]
       sync_clock_guard_errors [OF ne an hd ch sef disjI1 [OF ur], of Empty]
       ne an hd ch sef ur nv g
  show ?thesis
    by (simp add: edgeWith_def handleError_def)
qed

lemma annotate_sendIndexed:
  "annotate noInterpreter P (sendIndexed (prim UNKNOWN) (prim UNKNOWN)) errs
     = Some ((True, sendIndexed (prim INT_T) (chanType {URGENT})), errs)"
proof -
  let ?i = "varId ''i'' (prim INT_T)"
  let ?a = "varId ''a'' urgentChannels"
  have s1: "annotateAll noInterpreter P [?i] errs = Some ((True, [?i]), errs)"
    by (simp add: annotateAll_one annotate_varId)
  have sw1: "annotateSwitch noInterpreter (postIncrement (prim UNKNOWN)) POSTINCREMENT [?i] errs
               = (SetType (prim INT_T), errs)"
    by (simp add: annotateSwitch_def varId_simps isInteger_def type_isInteger_def prim_simps)
  have p: "annotate noInterpreter P (postIncrement (prim UNKNOWN)) errs
             = Some ((True, postIncrement (prim INT_T)), errs)"
    using annotate_node [OF s1, of POSTINCREMENT 2 "prim UNKNOWN" 0 None] sw1
    by (simp add: arity_def postIncrement_def)
  have s2: "annotateAll noInterpreter P [?a, postIncrement (prim UNKNOWN)] errs
              = Some ((True, [?a, postIncrement (prim INT_T)]), errs)"
    by (simp add: annotateAll_two annotate_varId p)
  have tp: "getType (postIncrement (prim INT_T)) = prim INT_T" by (simp add: postIncrement_def)
  have ev: "evaluate noInterpreter e = None" for e
    by (simp add: evaluate_def noInterpreter_def)
  have sw2: "annotateSwitch noInterpreter
               (Expr ARRAY 3 (prim UNKNOWN) 0 None [?a, postIncrement (prim INT_T)]) ARRAY
               [?a, postIncrement (prim INT_T)] errs
               = (SetType (chanType {URGENT}), errs)"
    by (simp add: annotateSwitch_def Let_def varId_simps tp urgentChannels_def intType_simps
        type_isValue_def prim_simps ev)
  have ix: "annotate noInterpreter P (indexedChannel (prim UNKNOWN) (prim UNKNOWN)) errs
              = Some ((True, indexedChannel (prim INT_T) (chanType {URGENT})), errs)"
    using annotate_node [OF s2, of ARRAY 3 "prim UNKNOWN" 0 None] sw2
    by (simp add: arity_def indexedChannel_def)
  have s3: "annotateAll noInterpreter P [indexedChannel (prim UNKNOWN) (prim UNKNOWN)] errs
              = Some ((True, [indexedChannel (prim INT_T) (chanType {URGENT})]), errs)"
    using ix by (rule annotateAll_one)
  have sw3: "annotateSwitch noInterpreter
               (Expr SYNC 4 (prim UNKNOWN) 1 None [indexedChannel (prim INT_T) (chanType {URGENT})])
               SYNC [indexedChannel (prim INT_T) (chanType {URGENT})] errs = (ReturnTrue, errs)"
    by (simp add: annotateSwitch_def)
  from annotate_node [OF s3, of SYNC 4 "prim UNKNOWN" 1 None] sw3 show ?thesis
    by (simp add: arity_def sendIndexed_def)
qed

text \<open>
  The claim C7 as stated fails for a synchronisation with a side effect: \<open>a[i++]!\<close> over
  an array of urgent channels is reported as not side-effect free, with an empty guard
  (an error although there is no clock guard) as well as with the clock guard
  \<open>c <= 10\<close> (where the error for clock guards is not reported).
\<close>

theorem sync_side_effect_counterexample:
  "getBase (getType (indexedChannel (prim INT_T) (chanType {URGENT}))) = CHANNEL
   \<and> hasPrefix (getType (indexedChannel (prim INT_T) (chanType {URGENT}))) URGENT
   \<and> visitEdge_sync noInterpreter {counterSymbol}
        (edgeWith Empty (sendIndexed (prim UNKNOWN) (prim UNKNOWN))) []
       = Some (edgeWith Empty (sendIndexed (prim INT_T) (chanType {URGENT})),
               [(sendIndexed (prim INT_T) (chanType {URGENT}),
                 ''Synchronisation must be side effect free'')])
   \<and> \<not> empty (clockBound (prim INVARIANT)) \<and> \<not> isValue (clockBound (prim INVARIANT))
   \<and> visitEdge_sync noInterpreter {counterSymbol}
        (edgeWith (clockBound (prim INVARIANT)) (sendIndexed (prim UNKNOWN) (prim UNKNOWN))) []
       = Some (edgeWith (clockBound (prim INVARIANT))
                 (sendIndexed (prim INT_T) (chanType {URGENT})),
               [(sendIndexed (prim INT_T) (chanType {URGENT}),
                 ''Synchronisation must be side effect free'')])"
proof -
  have ch: "getType (indexedChannel (prim INT_T) (chanType {URGENT})) = chanType {URGENT}"
    by (simp add: indexedChannel_def)
  have hd: "get (sendIndexed (prim INT_T) (chanType {URGENT})) 0
              = Some (indexedChannel (prim INT_T) (chanType {URGENT}))"
    by (simp add: get_def sendIndexed_def)
  have nsef: "\<not> isSideEffectFree {counterSymbol} (sendIndexed (prim INT_T) (chanType {URGENT}))"
    by (simp add: isSideEffectFree_def sendIndexed_def indexedChannel_def postIncrement_def
        isUpdate_def varId_simps counterSymbol_def)
  have ne: "\<not> empty (sendIndexed (prim UNKNOWN) (prim UNKNOWN))" by (simp add: sendIndexed_def)
  have nv: "\<not> isValue (clockBound (prim INVARIANT))"
    by (simp add: clockBound_def isValue_def type_isValue_def prim_simps)
  have g: "\<not> empty (clockBound (prim INVARIANT))" by (simp add: clockBound_def)
  have "visitEdge_sync noInterpreter {counterSymbol}
          (edgeWith g (sendIndexed (prim UNKNOWN) (prim UNKNOWN))) []
        = Some (edgeWith g (sendIndexed (prim INT_T) (chanType {URGENT})),
                [(sendIndexed (prim INT_T) (chanType {URGENT}),
                  ''Synchronisation must be side effect free'')])" for g
    using ne nsef
    by (simp add: visitEdge_sync_def edgeWith_def annotate_sendIndexed hd ch chanType_simps
        handleError_def Let_def)
  with ch nv g show ?thesis by (simp add: chanType_simps)
qed

subsection \<open>Invariants with rates\<close>








































end
